theory Spec2Isabelle
  imports Main
begin

section \<open>Thrown values\<close>

text \<open>
  The manager catches values of unknown shape and looks at three things only: the text
  \<open>error instanceof Error ? error.message : String(error)\<close>, the nested
  \<open>error.response.statusCode\<close>, and whatever \<open>isK8sNotFound\<close> inspects.
  A thrown value is modelled by exactly these observations. \<open>response\<close> is \<open>None\<close>
  when the value has no \<open>response\<close> property whose \<open>typeof\<close> is \<open>'object'\<close>;
  otherwise it is \<open>null\<close> or an object, whose \<open>statusCode\<close> is \<open>None\<close> when it
  carries no status code. \<open>code\<close> stands for a status carried elsewhere on the value,
  which only \<open>isK8sNotFound\<close> may read.
\<close>

datatype js_response = NullResponse | ResponseObject (statusCode: "int option")

datatype js_error = JsError (message: string) (response: "js_response option") (code: "int option")

text \<open>\<open>new Error(msg)\<close>, and the \<open>TypeError\<close> of a property read on \<open>undefined\<close> or \<open>null\<close>.\<close>

definition new_Error :: "string \<Rightarrow> js_error" where
  "new_Error msg = JsError msg None None"

definition TypeError :: "string \<Rightarrow> string \<Rightarrow> js_error" where
  "TypeError base property =
     JsError (''Cannot read properties of '' @ base @ '' (reading '' @ [CHR 0x27] @ property @
              [CHR 0x27] @ '')'') None None"

text \<open>
  The test the source writes out in full:
  \<open>typeof error === 'object' && error !== null && 'response' in error &&
  typeof error.response === 'object' && error.response.statusCode === n\<close>.
  \<open>typeof null\<close> is \<open>'object'\<close>, so a \<open>response\<close> that is \<open>null\<close> passes the first
  four conjuncts and the read of \<open>statusCode\<close> throws.
\<close>

definition response_statusCode_is :: "js_error \<Rightarrow> int \<Rightarrow> js_error + bool" where
  "response_statusCode_is error n =
     (case response error of
        None \<Rightarrow> Inr False
      | Some NullResponse \<Rightarrow> Inl (TypeError ''null'' ''statusCode'')
      | Some (ResponseObject code') \<Rightarrow> Inr (code' = Some n))"

text \<open>The same test with \<open>!==\<close> in its last conjunct (an absent status code differs from \<open>n\<close>).\<close>

definition response_statusCode_isnt :: "js_error \<Rightarrow> int \<Rightarrow> js_error + bool" where
  "response_statusCode_isnt error n =
     (case response error of
        None \<Rightarrow> Inr False
      | Some NullResponse \<Rightarrow> Inl (TypeError ''null'' ''statusCode'')
      | Some (ResponseObject code') \<Rightarrow> Inr (code' \<noteq> Some n))"

section \<open>Cluster objects\<close>

text \<open>
  The objects of the typed client, at the fields the manager reads or writes. Optional
  fields of the client's types are \<open>option\<close>s. Images, resource limits, annotations,
  volumes and scripts of the manifests are constant text in the source and are left out.
\<close>

record V1EnvVar =
  env_name :: string
  env_value :: "string option"

record V1Container =
  container_name :: string
  container_env :: "V1EnvVar list option"

record V1PodSpec =
  containers :: "V1Container list"

record V1StatefulSetSpec =
  spec_replicas :: "int option"
  spec_serviceName :: string
  template_spec :: "V1PodSpec option"

record V1StatefulSetStatus =
  status_replicas :: "int option"
  status_readyReplicas :: "int option"
  status_currentReplicas :: "int option"
  status_updatedReplicas :: "int option"
  status_currentRevision :: "string option"
  status_updateRevision :: "string option"

record V1StatefulSet =
  sts_name :: string
  sts_namespace :: string
  sts_labels :: "(string \<times> string) list"
  sts_spec :: "V1StatefulSetSpec option"
  sts_status :: "V1StatefulSetStatus option"

record V1Service =
  service_name :: string
  service_namespace :: string
  service_labels :: "(string \<times> string) list"
  service_ports :: "nat list"
  service_selector :: string

record V1Ingress =
  ingress_name :: string
  ingress_namespace :: string
  ingress_labels :: "(string \<times> string) list"
  ingress_host :: string
  ingress_backend_service :: string
  ingress_backend_port :: nat

text \<open>One operation of a JSON patch: \<open>{ op: 'replace', path, value }\<close>.\<close>

datatype json_patch_op = Replace (path: string) (patch_value: int)

section \<open>The cluster as the client sees it\<close>

text \<open>
  Every request the manager sends is one \<open>api_call\<close>. The cluster holds the four kinds
  of resources under (namespace, name), answers a request from them, and keeps the list
  of the requests it received. \<open>faults\<close> gives the requests that fail in transit or are
  refused: such a request throws the given value and changes no resource.
\<close>

datatype api_call =
    ReadNamespacedStatefulSet string string
  | CreateNamespacedStatefulSet string V1StatefulSet
  | PatchNamespacedStatefulSet string string "json_patch_op list"
  | ReplaceNamespacedStatefulSet string string V1StatefulSet
  | DeleteNamespacedStatefulSet string string
  | ReadNamespacedService string string
  | CreateNamespacedService string V1Service
  | DeleteNamespacedService string string
  | ReadNamespacedIngress string string
  | CreateNamespacedIngress string V1Ingress
  | DeleteNamespacedIngress string string
  | DeleteNamespacedPersistentVolumeClaim string string

record cluster =
  statefulSets :: "(string \<times> string) \<rightharpoonup> V1StatefulSet"
  services :: "(string \<times> string) \<rightharpoonup> V1Service"
  ingresses :: "(string \<times> string) \<rightharpoonup> V1Ingress"
  persistentVolumeClaims :: "(string \<times> string) set"
  faults :: "api_call \<Rightarrow> js_error option"
  calls :: "api_call list"

text \<open>The answer of the API server with HTTP status \<open>n\<close>.\<close>

definition http_error :: "int \<Rightarrow> js_error" where
  "http_error n = JsError ''HTTP request failed'' (Some (ResponseObject (Some n))) (Some n)"

definition log_call :: "api_call \<Rightarrow> cluster \<Rightarrow> cluster" where
  "log_call call c = c\<lparr>calls := calls c @ [call]\<rparr>"

definition readNamespacedStatefulSet ::
  "string \<Rightarrow> string \<Rightarrow> cluster \<Rightarrow> (js_error + V1StatefulSet) \<times> cluster" where
  "readNamespacedStatefulSet name namespace c =
     (let call = ReadNamespacedStatefulSet name namespace; c' = log_call call c in
      case faults c call of
        Some e \<Rightarrow> (Inl e, c')
      | None \<Rightarrow>
          (case statefulSets c (namespace, name) of
             None \<Rightarrow> (Inl (http_error 404), c')
           | Some body \<Rightarrow> (Inr body, c')))"

section \<open>Status derivation\<close>

datatype SandboxStatus = STARTING | RUNNING | STOPPING | STOPPED | TERMINATED | ERROR

record StatefulSetStatusDetail =
  status :: SandboxStatus
  replicas :: int
  readyReplicas :: int
  currentReplicas :: int
  updatedReplicas :: int
  currentRevision :: "string option"
  updateRevision :: "string option"
  isReady :: bool

text \<open>\<open>x || 0\<close> on an optional count.\<close>

definition or_zero :: "int option \<Rightarrow> int" where
  "or_zero x = (case x of None \<Rightarrow> 0 | Some n \<Rightarrow> n)"

text \<open>
  \<open>getStatefulSet\<close>: the exact-name read, with a not-found answer turned into \<open>null\<close>.
  \<open>isK8sNotFound\<close> comes from a module outside these sources and is a parameter.
\<close>

definition getStatefulSet ::
  "(js_error \<Rightarrow> bool) \<Rightarrow> string \<Rightarrow> string \<Rightarrow> cluster \<Rightarrow> (js_error + V1StatefulSet option) \<times> cluster" where
  "getStatefulSet isK8sNotFound sandboxName namespace c =
     (case readNamespacedStatefulSet sandboxName namespace c of
        (Inr body, c') \<Rightarrow> (Inr (Some body), c')
      | (Inl error, c') \<Rightarrow>
          (if isK8sNotFound error then (Inr None, c') else (Inl error, c')))"

definition zero_detail :: "SandboxStatus \<Rightarrow> StatefulSetStatusDetail" where
  "zero_detail s =
     \<lparr>status = s, replicas = 0, readyReplicas = 0, currentReplicas = 0, updatedReplicas = 0,
      currentRevision = None, updateRevision = None, isReady = False\<rparr>"

text \<open>The body of the \<open>try\<close> block once the StatefulSet has been read.\<close>

definition derive_status :: "V1StatefulSet \<Rightarrow> StatefulSetStatusDetail" where
  "derive_status statefulSet =
     (let specReplicas = or_zero (Option.bind (sts_spec statefulSet) spec_replicas);
          statusReplicas = or_zero (Option.bind (sts_status statefulSet) status_replicas);
          readyReplicas' = or_zero (Option.bind (sts_status statefulSet) status_readyReplicas);
          currentReplicas' = or_zero (Option.bind (sts_status statefulSet) status_currentReplicas);
          updatedReplicas' = or_zero (Option.bind (sts_status statefulSet) status_updatedReplicas);
          currentRevision' = Option.bind (sts_status statefulSet) status_currentRevision;
          updateRevision' = Option.bind (sts_status statefulSet) status_updateRevision;
          isReady' =
            (specReplicas > 0 \<and> statusReplicas = specReplicas \<and> readyReplicas' = specReplicas \<and>
             currentReplicas' = specReplicas \<and> updatedReplicas' = specReplicas);
          status' =
            (if specReplicas = 0 then (if currentReplicas' > 0 then STOPPING else STOPPED)
             else (if isReady' then RUNNING else STARTING))
      in \<lparr>status = status', replicas = specReplicas, readyReplicas = readyReplicas',
          currentReplicas = currentReplicas', updatedReplicas = updatedReplicas',
          currentRevision = currentRevision', updateRevision = updateRevision',
          isReady = isReady'\<rparr>)"

text \<open>
  The \<open>catch\<close> block: a nested status code 404 gives TERMINATED, anything else ERROR.
  What the test of the status code throws leaves the block, and the function with it.
\<close>

definition getStatefulSetStatus_catch :: "js_error \<Rightarrow> js_error + StatefulSetStatusDetail" where
  "getStatefulSetStatus_catch error =
     (case response_statusCode_is error 404 of
        Inl thrown \<Rightarrow> Inl thrown
      | Inr True \<Rightarrow> Inr (zero_detail TERMINATED)
      | Inr False \<Rightarrow> Inr (zero_detail ERROR))"

definition getStatefulSetStatus ::
  "(js_error \<Rightarrow> bool) \<Rightarrow> string \<Rightarrow> string \<Rightarrow> cluster \<Rightarrow> (js_error + StatefulSetStatusDetail) \<times> cluster" where
  "getStatefulSetStatus isK8sNotFound sandboxName namespace c =
     (case getStatefulSet isK8sNotFound sandboxName namespace c of
        (Inr None, c') \<Rightarrow> (Inr (zero_detail TERMINATED), c')
      | (Inr (Some statefulSet), c') \<Rightarrow> (Inr (derive_status statefulSet), c')
      | (Inl error, c') \<Rightarrow> (getStatefulSetStatus_catch error, c'))"

text \<open>The five counts as the status query reads them, an absent count being 0.\<close>

definition declared :: "V1StatefulSet \<Rightarrow> int" where
  "declared s = or_zero (Option.bind (sts_spec s) spec_replicas)"

definition observed_total :: "V1StatefulSet \<Rightarrow> int" where
  "observed_total s = or_zero (Option.bind (sts_status s) status_replicas)"

definition observed_ready :: "V1StatefulSet \<Rightarrow> int" where
  "observed_ready s = or_zero (Option.bind (sts_status s) status_readyReplicas)"

definition observed_current :: "V1StatefulSet \<Rightarrow> int" where
  "observed_current s = or_zero (Option.bind (sts_status s) status_currentReplicas)"

definition observed_updated :: "V1StatefulSet \<Rightarrow> int" where
  "observed_updated s = or_zero (Option.bind (sts_status s) status_updatedReplicas)"

text \<open>A StatefulSet with the given five counts, and a cluster holding it.\<close>

definition sts_with_counts :: "string \<Rightarrow> string \<Rightarrow> int \<Rightarrow> int \<Rightarrow> int \<Rightarrow> int \<Rightarrow> int \<Rightarrow> V1StatefulSet" where
  "sts_with_counts name namespace d t r cu u =
     \<lparr>sts_name = name, sts_namespace = namespace, sts_labels = [],
      sts_spec = Some \<lparr>spec_replicas = Some d, spec_serviceName = name @ ''-service'',
                       template_spec = Some \<lparr>containers = []\<rparr>\<rparr>,
      sts_status = Some \<lparr>status_replicas = Some t, status_readyReplicas = Some r,
                         status_currentReplicas = Some cu, status_updatedReplicas = Some u,
                         status_currentRevision = None, status_updateRevision = None\<rparr>\<rparr>"

definition empty_cluster :: cluster where
  "empty_cluster =
     \<lparr>statefulSets = Map.empty, services = Map.empty, ingresses = Map.empty,
      persistentVolumeClaims = {}, faults = (\<lambda>_. None), calls = []\<rparr>"

text \<open>A not-found test for the examples: the status carried by the thrown value is 404.\<close>

definition is404 :: "js_error \<Rightarrow> bool" where
  "is404 e = (code e = Some 404)"


section \<open>Writes to a StatefulSet\<close>

text \<open>
  A JSON patch \<open>replace\<close> needs its target to exist. The only path the manager patches
  is \<open>/spec/replicas\<close>; the cluster refuses any other with status 422.
\<close>

definition apply_patch_op :: "json_patch_op \<Rightarrow> V1StatefulSet \<Rightarrow> V1StatefulSet option" where
  "apply_patch_op op' s =
     (if path op' = ''/spec/replicas'' then
        (case sts_spec s of
           None \<Rightarrow> None
         | Some sp \<Rightarrow>
             (case spec_replicas sp of
                None \<Rightarrow> None
              | Some _ \<Rightarrow> Some (s\<lparr>sts_spec := Some (sp\<lparr>spec_replicas := Some (patch_value op')\<rparr>)\<rparr>)))
      else None)"

fun apply_patch :: "json_patch_op list \<Rightarrow> V1StatefulSet \<Rightarrow> V1StatefulSet option" where
  "apply_patch [] s = Some s"
| "apply_patch (op' # ops) s =
     (case apply_patch_op op' s of None \<Rightarrow> None | Some s' \<Rightarrow> apply_patch ops s')"

definition patchNamespacedStatefulSet ::
  "string \<Rightarrow> string \<Rightarrow> json_patch_op list \<Rightarrow> cluster \<Rightarrow> (js_error + V1StatefulSet) \<times> cluster" where
  "patchNamespacedStatefulSet name namespace body c =
     (let call = PatchNamespacedStatefulSet name namespace body; c' = log_call call c in
      case faults c call of
        Some e \<Rightarrow> (Inl e, c')
      | None \<Rightarrow>
          (case statefulSets c (namespace, name) of
             None \<Rightarrow> (Inl (http_error 404), c')
           | Some s \<Rightarrow>
               (case apply_patch body s of
                  None \<Rightarrow> (Inl (http_error 422), c')
                | Some s' \<Rightarrow>
                    (Inr s', c'\<lparr>statefulSets := (statefulSets c)((namespace, name) \<mapsto> s')\<rparr>))))"

definition replaceNamespacedStatefulSet ::
  "string \<Rightarrow> string \<Rightarrow> V1StatefulSet \<Rightarrow> cluster \<Rightarrow> (js_error + V1StatefulSet) \<times> cluster" where
  "replaceNamespacedStatefulSet name namespace body c =
     (let call = ReplaceNamespacedStatefulSet name namespace body; c' = log_call call c in
      case faults c call of
        Some e \<Rightarrow> (Inl e, c')
      | None \<Rightarrow>
          (case statefulSets c (namespace, name) of
             None \<Rightarrow> (Inl (http_error 404), c')
           | Some _ \<Rightarrow>
               (Inr body, c'\<lparr>statefulSets := (statefulSets c)((namespace, name) \<mapsto> body)\<rparr>)))"

text \<open>What an observer of the cluster sees: its resources; and the requests that were not reads.\<close>

definition resources ::
  "cluster \<Rightarrow> ((string \<times> string) \<rightharpoonup> V1StatefulSet) \<times> ((string \<times> string) \<rightharpoonup> V1Service) \<times>
     ((string \<times> string) \<rightharpoonup> V1Ingress) \<times> (string \<times> string) set" where
  "resources c = (statefulSets c, services c, ingresses c, persistentVolumeClaims c)"

fun is_read :: "api_call \<Rightarrow> bool" where
  "is_read (ReadNamespacedStatefulSet _ _) = True"
| "is_read (ReadNamespacedService _ _) = True"
| "is_read (ReadNamespacedIngress _ _) = True"
| "is_read _ = False"

definition writes :: "cluster \<Rightarrow> api_call list" where
  "writes c = filter (\<lambda>call. \<not> is_read call) (calls c)"

section \<open>Stop and start\<close>

text \<open>
  In both, the \<open>catch\<close> block logs and throws the caught value again, so a failure of
  the read or of the patch is the failure of the operation.
\<close>

definition stopSandbox ::
  "(js_error \<Rightarrow> bool) \<Rightarrow> string \<Rightarrow> string \<Rightarrow> cluster \<Rightarrow> (js_error + unit) \<times> cluster" where
  "stopSandbox isK8sNotFound namespace sandboxName c =
     (case getStatefulSet isK8sNotFound sandboxName namespace c of
        (Inl error, c1) \<Rightarrow> (Inl error, c1)
      | (Inr None, c1) \<Rightarrow> (Inr (), c1)
      | (Inr (Some statefulSet), c1) \<Rightarrow>
          (let currentReplicas = or_zero (Option.bind (sts_spec statefulSet) spec_replicas) in
           if currentReplicas = 0 then (Inr (), c1)
           else
             (case patchNamespacedStatefulSet sandboxName namespace [Replace ''/spec/replicas'' 0] c1 of
                (Inl error, c2) \<Rightarrow> (Inl error, c2)
              | (Inr _, c2) \<Rightarrow> (Inr (), c2))))"

definition startSandbox ::
  "(js_error \<Rightarrow> bool) \<Rightarrow> string \<Rightarrow> string \<Rightarrow> cluster \<Rightarrow> (js_error + unit) \<times> cluster" where
  "startSandbox isK8sNotFound namespace sandboxName c =
     (case getStatefulSet isK8sNotFound sandboxName namespace c of
        (Inl error, c1) \<Rightarrow> (Inl error, c1)
      | (Inr None, c1) \<Rightarrow> (Inr (), c1)
      | (Inr (Some statefulSet), c1) \<Rightarrow>
          (let currentReplicas = or_zero (Option.bind (sts_spec statefulSet) spec_replicas) in
           if currentReplicas \<ge> 1 then (Inr (), c1)
           else
             (case patchNamespacedStatefulSet sandboxName namespace [Replace ''/spec/replicas'' 1] c1 of
                (Inl error, c2) \<Rightarrow> (Inl error, c2)
              | (Inr _, c2) \<Rightarrow> (Inr (), c2))))"

section \<open>Environment variables\<close>

text \<open>
  A \<open>Record<string, string>\<close> is the list of its own properties in insertion order,
  each key once. Index-like names, which the language lists first, are outside the
  model. \<open>Record_set\<close> defines a property: an existing key keeps its place.
\<close>

type_synonym Record = "(string \<times> string) list"

fun Record_set :: "string \<Rightarrow> string \<Rightarrow> Record \<Rightarrow> Record" where
  "Record_set k v [] = [(k, v)]"
| "Record_set k v ((k', v') # r) = (if k' = k then (k, v) # r else (k', v') # Record_set k v r)"

definition Record_get :: "Record \<Rightarrow> string \<Rightarrow> string option" where
  "Record_get r k = map_of r k"

text \<open>\<open>{ ...a, ...b }\<close>\<close>

definition spread :: "Record \<Rightarrow> Record \<Rightarrow> Record" where
  "spread a b = fold (\<lambda>(k, v) r. Record_set k v r) b a"

definition Object_entries :: "Record \<Rightarrow> (string \<times> string) list" where
  "Object_entries r = r"

text \<open>
  The loop that fills \<open>currentEnvMap\<close>, an object literal \<open>{}\<close>: an entry is taken
  when its name is a non-empty string and its value is defined. The assignment
  \<open>currentEnvMap[name] = value\<close> defines the property, except for the name
  \<open>__proto__\<close>: that name is the prototype accessor of the object, which ignores a
  string, so nothing is stored, and reading it back never gives a string.
\<close>

definition currentEnvMap_step :: "V1EnvVar \<Rightarrow> Record \<Rightarrow> Record" where
  "currentEnvMap_step envVar currentEnvMap =
     (case env_value envVar of
        None \<Rightarrow> currentEnvMap
      | Some v \<Rightarrow>
          if env_name envVar \<noteq> [] then
            (if env_name envVar = ''__proto__'' then currentEnvMap
             else Record_set (env_name envVar) v currentEnvMap)
          else currentEnvMap)"

definition currentEnvMap_of :: "V1EnvVar list option \<Rightarrow> Record" where
  "currentEnvMap_of env = (case env of None \<Rightarrow> [] | Some envs \<Rightarrow> fold currentEnvMap_step envs [])"

text \<open>
  Steps 4 and 5 of the update: the merged map, the environment made from it, the
  containers with the main one changed, and the StatefulSet carrying them.
\<close>

definition updatedStatefulSet_of ::
  "string \<Rightarrow> Record \<Rightarrow> Record \<Rightarrow> V1StatefulSet \<Rightarrow> V1StatefulSetSpec \<Rightarrow> V1PodSpec \<Rightarrow> V1StatefulSet" where
  "updatedStatefulSet_of sandboxName currentEnvMap envVars statefulSet spec podSpec =
     (let mergedEnvMap = spread currentEnvMap envVars;
          updatedEnv =
            map (\<lambda>(key, value). \<lparr>env_name = key, env_value = Some value\<rparr>)
              (Object_entries mergedEnvMap);
          containers' =
            map (\<lambda>container.
                   if container_name container = sandboxName
                   then container\<lparr>container_env := Some updatedEnv\<rparr>
                   else container)
              (containers podSpec);
          updatedSpec = spec\<lparr>template_spec := Some (podSpec\<lparr>containers := containers'\<rparr>)\<rparr>
      in statefulSet\<lparr>sts_spec := Some updatedSpec\<rparr>)"

text \<open>
  \<open>statefulSet.spec!.template.spec!.containers\<close> throws a \<open>TypeError\<close> when the read
  object has no spec or no pod spec; the \<open>catch\<close> block throws it again.
\<close>

definition updateStatefulSetEnvVars ::
  "(js_error \<Rightarrow> bool) \<Rightarrow> string \<Rightarrow> string \<Rightarrow> Record \<Rightarrow> cluster \<Rightarrow> (js_error + bool) \<times> cluster" where
  "updateStatefulSetEnvVars isK8sNotFound namespace sandboxName envVars c =
     (case getStatefulSet isK8sNotFound sandboxName namespace c of
        (Inl error, c1) \<Rightarrow> (Inl error, c1)
      | (Inr None, c1) \<Rightarrow> (Inr False, c1)
      | (Inr (Some statefulSet), c1) \<Rightarrow>
          (case sts_spec statefulSet of
             None \<Rightarrow> (Inl (TypeError ''undefined'' ''template''), c1)
           | Some spec \<Rightarrow>
          (case template_spec spec of
             None \<Rightarrow> (Inl (TypeError ''undefined'' ''containers''), c1)
           | Some podSpec \<Rightarrow>
          (case find (\<lambda>container. container_name container = sandboxName) (containers podSpec) of
             None \<Rightarrow> (Inr False, c1)
           | Some mainContainer \<Rightarrow>
               (let currentEnvMap = currentEnvMap_of (container_env mainContainer);
                    hasChanges =
                      list_ex (\<lambda>(key, value). Record_get currentEnvMap key \<noteq> Some value)
                        (Object_entries envVars)
                in
                if \<not> hasChanges then (Inr True, c1)
                else
                  (case replaceNamespacedStatefulSet sandboxName namespace
                          (updatedStatefulSet_of sandboxName currentEnvMap envVars statefulSet spec podSpec)
                          c1 of
                     (Inl error, c2) \<Rightarrow> (Inl error, c2)
                   | (Inr _, c2) \<Rightarrow> (Inr True, c2)))))))"

text \<open>
  The value a container's environment gives a name: that of the last entry with this
  name. It is \<open>None\<close> when no entry has the name, or when that entry carries no literal
  value (its value comes from a reference).
\<close>

definition env_lookup :: "V1EnvVar list \<Rightarrow> string \<Rightarrow> string option" where
  "env_lookup env k =
     (case filter (\<lambda>e. env_name e = k) env of [] \<Rightarrow> None | e # es \<Rightarrow> env_value (last (e # es)))"

definition env_of :: "V1Container \<Rightarrow> V1EnvVar list" where
  "env_of container = (case container_env container of None \<Rightarrow> [] | Some env \<Rightarrow> env)"

text \<open>A StatefulSet with one replica whose main container has the given environment.\<close>

definition sts_with_env :: "string \<Rightarrow> string \<Rightarrow> V1EnvVar list \<Rightarrow> V1StatefulSet" where
  "sts_with_env name namespace env =
     \<lparr>sts_name = name, sts_namespace = namespace, sts_labels = [],
      sts_spec = Some \<lparr>spec_replicas = Some 1, spec_serviceName = name @ ''-service'',
                       template_spec = Some \<lparr>containers =
                         [\<lparr>container_name = name, container_env = Some env\<rparr>,
                          \<lparr>container_name = ''filebrowser'', container_env = Some []\<rparr>]\<rparr>\<rparr>,
      sts_status = None\<rparr>"

definition cluster_with :: "V1StatefulSet \<Rightarrow> cluster" where
  "cluster_with s = empty_cluster\<lparr>statefulSets := [(sts_namespace s, sts_name s) \<mapsto> s]\<rparr>"


section \<open>The other requests\<close>

definition deleteNamespacedStatefulSet ::
  "string \<Rightarrow> string \<Rightarrow> cluster \<Rightarrow> (js_error + unit) \<times> cluster" where
  "deleteNamespacedStatefulSet name namespace c =
     (let call = DeleteNamespacedStatefulSet name namespace; c' = log_call call c in
      case faults c call of
        Some e \<Rightarrow> (Inl e, c')
      | None \<Rightarrow>
          (case statefulSets c (namespace, name) of
             None \<Rightarrow> (Inl (http_error 404), c')
           | Some _ \<Rightarrow> (Inr (), c'\<lparr>statefulSets := (statefulSets c)((namespace, name) := None)\<rparr>)))"

definition createNamespacedStatefulSet ::
  "string \<Rightarrow> V1StatefulSet \<Rightarrow> cluster \<Rightarrow> (js_error + V1StatefulSet) \<times> cluster" where
  "createNamespacedStatefulSet namespace body c =
     (let call = CreateNamespacedStatefulSet namespace body; c' = log_call call c in
      case faults c call of
        Some e \<Rightarrow> (Inl e, c')
      | None \<Rightarrow>
          (case statefulSets c (namespace, sts_name body) of
             Some _ \<Rightarrow> (Inl (http_error 409), c')
           | None \<Rightarrow>
               (Inr body, c'\<lparr>statefulSets := (statefulSets c)((namespace, sts_name body) \<mapsto> body)\<rparr>)))"

definition readNamespacedService ::
  "string \<Rightarrow> string \<Rightarrow> cluster \<Rightarrow> (js_error + V1Service) \<times> cluster" where
  "readNamespacedService name namespace c =
     (let call = ReadNamespacedService name namespace; c' = log_call call c in
      case faults c call of
        Some e \<Rightarrow> (Inl e, c')
      | None \<Rightarrow>
          (case services c (namespace, name) of
             None \<Rightarrow> (Inl (http_error 404), c')
           | Some body \<Rightarrow> (Inr body, c')))"

definition createNamespacedService ::
  "string \<Rightarrow> V1Service \<Rightarrow> cluster \<Rightarrow> (js_error + V1Service) \<times> cluster" where
  "createNamespacedService namespace body c =
     (let call = CreateNamespacedService namespace body; c' = log_call call c in
      case faults c call of
        Some e \<Rightarrow> (Inl e, c')
      | None \<Rightarrow>
          (case services c (namespace, service_name body) of
             Some _ \<Rightarrow> (Inl (http_error 409), c')
           | None \<Rightarrow>
               (Inr body, c'\<lparr>services := (services c)((namespace, service_name body) \<mapsto> body)\<rparr>)))"

definition deleteNamespacedService ::
  "string \<Rightarrow> string \<Rightarrow> cluster \<Rightarrow> (js_error + unit) \<times> cluster" where
  "deleteNamespacedService name namespace c =
     (let call = DeleteNamespacedService name namespace; c' = log_call call c in
      case faults c call of
        Some e \<Rightarrow> (Inl e, c')
      | None \<Rightarrow>
          (case services c (namespace, name) of
             None \<Rightarrow> (Inl (http_error 404), c')
           | Some _ \<Rightarrow> (Inr (), c'\<lparr>services := (services c)((namespace, name) := None)\<rparr>)))"

definition readNamespacedIngress ::
  "string \<Rightarrow> string \<Rightarrow> cluster \<Rightarrow> (js_error + V1Ingress) \<times> cluster" where
  "readNamespacedIngress name namespace c =
     (let call = ReadNamespacedIngress name namespace; c' = log_call call c in
      case faults c call of
        Some e \<Rightarrow> (Inl e, c')
      | None \<Rightarrow>
          (case ingresses c (namespace, name) of
             None \<Rightarrow> (Inl (http_error 404), c')
           | Some body \<Rightarrow> (Inr body, c')))"

definition createNamespacedIngress ::
  "string \<Rightarrow> V1Ingress \<Rightarrow> cluster \<Rightarrow> (js_error + V1Ingress) \<times> cluster" where
  "createNamespacedIngress namespace body c =
     (let call = CreateNamespacedIngress namespace body; c' = log_call call c in
      case faults c call of
        Some e \<Rightarrow> (Inl e, c')
      | None \<Rightarrow>
          (case ingresses c (namespace, ingress_name body) of
             Some _ \<Rightarrow> (Inl (http_error 409), c')
           | None \<Rightarrow>
               (Inr body, c'\<lparr>ingresses := (ingresses c)((namespace, ingress_name body) \<mapsto> body)\<rparr>)))"

definition deleteNamespacedIngress ::
  "string \<Rightarrow> string \<Rightarrow> cluster \<Rightarrow> (js_error + unit) \<times> cluster" where
  "deleteNamespacedIngress name namespace c =
     (let call = DeleteNamespacedIngress name namespace; c' = log_call call c in
      case faults c call of
        Some e \<Rightarrow> (Inl e, c')
      | None \<Rightarrow>
          (case ingresses c (namespace, name) of
             None \<Rightarrow> (Inl (http_error 404), c')
           | Some _ \<Rightarrow> (Inr (), c'\<lparr>ingresses := (ingresses c)((namespace, name) := None)\<rparr>)))"

definition deleteNamespacedPersistentVolumeClaim ::
  "string \<Rightarrow> string \<Rightarrow> cluster \<Rightarrow> (js_error + unit) \<times> cluster" where
  "deleteNamespacedPersistentVolumeClaim name namespace c =
     (let call = DeleteNamespacedPersistentVolumeClaim name namespace; c' = log_call call c in
      case faults c call of
        Some e \<Rightarrow> (Inl e, c')
      | None \<Rightarrow>
          (if (namespace, name) \<in> persistentVolumeClaims c
           then (Inr (), c'\<lparr>persistentVolumeClaims := persistentVolumeClaims c - {(namespace, name)}\<rparr>)
           else (Inl (http_error 404), c')))"

section \<open>Names\<close>

definition getServiceName :: "string \<Rightarrow> string" where
  "getServiceName sandboxName = sandboxName @ ''-service''"

definition getAppIngressName :: "string \<Rightarrow> string" where
  "getAppIngressName sandboxName = sandboxName @ ''-app-ingress''"

definition getTtydIngressName :: "string \<Rightarrow> string" where
  "getTtydIngressName sandboxName = sandboxName @ ''-ttyd-ingress''"

definition getFileBrowserIngressName :: "string \<Rightarrow> string" where
  "getFileBrowserIngressName sandboxName = sandboxName @ ''-filebrowser-ingress''"

section \<open>Promise.all\<close>

text \<open>
  An async function runs up to its first \<open>await\<close> when it is called, so the functions
  collected in the array passed to \<open>Promise.all\<close> send their first request in array
  order, before any answer is looked at. \<open>Promise.all\<close> is fulfilled when every promise
  is; otherwise it is rejected with the reason of the promise that rejects first in
  time, which may be any of the rejected ones. \<open>Promise_all\<close> gives the settlements the
  combined promise may have.
\<close>

definition Promise_all :: "(js_error + unit) list \<Rightarrow> (js_error + unit) list" where
  "Promise_all promises = (if list_ex isl promises then filter isl promises else [Inr ()])"

section \<open>Delete\<close>

definition deleteStatefulSet ::
  "(js_error \<Rightarrow> bool) \<Rightarrow> string \<Rightarrow> string \<Rightarrow> cluster \<Rightarrow> (js_error + unit) \<times> cluster" where
  "deleteStatefulSet isK8sNotFound sandboxName namespace c =
     (case deleteNamespacedStatefulSet sandboxName namespace c of
        (Inr _, c') \<Rightarrow> (Inr (), c')
      | (Inl error, c') \<Rightarrow> (if isK8sNotFound error then (Inr (), c') else (Inl error, c')))"

definition deleteService ::
  "(js_error \<Rightarrow> bool) \<Rightarrow> string \<Rightarrow> string \<Rightarrow> cluster \<Rightarrow> (js_error + unit) \<times> cluster" where
  "deleteService isK8sNotFound sandboxName namespace c =
     (let serviceName = getServiceName sandboxName in
      case deleteNamespacedService serviceName namespace c of
        (Inr _, c') \<Rightarrow> (Inr (), c')
      | (Inl error, c') \<Rightarrow> (if isK8sNotFound error then (Inr (), c') else (Inl error, c')))"

definition deleteIngress ::
  "(js_error \<Rightarrow> bool) \<Rightarrow> string \<Rightarrow> string \<Rightarrow> cluster \<Rightarrow> (js_error + unit) \<times> cluster" where
  "deleteIngress isK8sNotFound ingressName namespace c =
     (case deleteNamespacedIngress ingressName namespace c of
        (Inr _, c') \<Rightarrow> (Inr (), c')
      | (Inl error, c') \<Rightarrow> (if isK8sNotFound error then (Inr (), c') else (Inl error, c')))"

definition deleteIngresses ::
  "(js_error \<Rightarrow> bool) \<Rightarrow> string \<Rightarrow> string \<Rightarrow> cluster \<Rightarrow> (js_error + unit) list \<times> cluster" where
  "deleteIngresses isK8sNotFound sandboxName namespace c =
     (let appIngressName = getAppIngressName sandboxName;
          ttydIngressName = getTtydIngressName sandboxName;
          fileBrowserIngressName = getFileBrowserIngressName sandboxName;
          (p1, c1) = deleteIngress isK8sNotFound appIngressName namespace c;
          (p2, c2) = deleteIngress isK8sNotFound ttydIngressName namespace c1;
          (p3, c3) = deleteIngress isK8sNotFound fileBrowserIngressName namespace c2
      in (Promise_all [p1, p2, p3], c3))"

text \<open>
  The inner \<open>try\<close> lets a not-found answer pass and throws anything else; the outer
  \<open>catch\<close> logs what was thrown and does not throw.
\<close>

definition deletePVCs ::
  "(js_error \<Rightarrow> bool) \<Rightarrow> string \<Rightarrow> string \<Rightarrow> cluster \<Rightarrow> (js_error + unit) \<times> cluster" where
  "deletePVCs isK8sNotFound sandboxName namespace c =
     (let pvcName = ''vn-homevn-fulling-'' @ sandboxName @ ''-0'';
          (inner, c') =
            (case deleteNamespacedPersistentVolumeClaim pvcName namespace c of
               (Inr _, c') \<Rightarrow> (Inr (), c')
             | (Inl error, c') \<Rightarrow> (if isK8sNotFound error then (Inr (), c') else (Inl error, c')))
      in case inner of Inr _ \<Rightarrow> (Inr (), c') | Inl error \<Rightarrow> (Inr (), c'))"

text \<open>
  The four promises are made in array order; the third has the settlements of the inner
  \<open>Promise.all\<close>. The result is every settlement the outer \<open>Promise.all\<close> may have.
\<close>

definition deleteSandbox ::
  "(js_error \<Rightarrow> bool) \<Rightarrow> string \<Rightarrow> string \<Rightarrow> cluster \<Rightarrow> (js_error + unit) list \<times> cluster" where
  "deleteSandbox isK8sNotFound namespace sandboxName c =
     (let (p1, c1) = deleteStatefulSet isK8sNotFound sandboxName namespace c;
          (p2, c2) = deleteService isK8sNotFound sandboxName namespace c1;
          (p3s, c3) = deleteIngresses isK8sNotFound sandboxName namespace c2;
          (p4, c4) = deletePVCs isK8sNotFound sandboxName namespace c3
      in (concat (map (\<lambda>p3. Promise_all [p1, p2, p3, p4]) p3s), c4))"

section \<open>Create\<close>

definition env_entries :: "Record \<Rightarrow> V1EnvVar list" where
  "env_entries r = map (\<lambda>(key, value). \<lparr>env_name = key, env_value = Some value\<rparr>) (Object_entries r)"

text \<open>\<open>r[k] || d\<close>: the default stands in for an absent and for an empty value.\<close>

definition get_or :: "Record \<Rightarrow> string \<Rightarrow> string \<Rightarrow> string" where
  "get_or r k d = (case Record_get r k of None \<Rightarrow> d | Some v \<Rightarrow> if v = [] then d else v)"

definition statefulSet_manifest :: "string \<Rightarrow> string \<Rightarrow> string \<Rightarrow> Record \<Rightarrow> V1StatefulSet" where
  "statefulSet_manifest sandboxName k8sProjectName namespace containerEnv =
     \<lparr>sts_name = sandboxName, sts_namespace = namespace,
      sts_labels =
        [(''cloud.sealos.io/app-deploy-manager'', sandboxName), (''app'', sandboxName),
         (''project.fullstackagent.io/name'', k8sProjectName)],
      sts_spec = Some
        \<lparr>spec_replicas = Some 1, spec_serviceName = getServiceName sandboxName,
         template_spec = Some \<lparr>containers =
           [\<lparr>container_name = sandboxName, container_env = Some (env_entries containerEnv)\<rparr>,
            \<lparr>container_name = ''filebrowser'', container_env = Some
               [\<lparr>env_name = ''FILE_BROWSER_USERNAME'',
                 env_value = Some (get_or containerEnv ''FILE_BROWSER_USERNAME'' ''admin'')\<rparr>,
                \<lparr>env_name = ''FILE_BROWSER_PASSWORD'',
                 env_value = Some (get_or containerEnv ''FILE_BROWSER_PASSWORD'' ''admin'')\<rparr>]\<rparr>]\<rparr>\<rparr>,
      sts_status = None\<rparr>"

definition createStatefulSet ::
  "(js_error \<Rightarrow> bool) \<Rightarrow> string \<Rightarrow> string \<Rightarrow> string \<Rightarrow> Record \<Rightarrow> cluster \<Rightarrow> (js_error + unit) \<times> cluster" where
  "createStatefulSet isK8sNotFound sandboxName k8sProjectName namespace containerEnv c =
     (case getStatefulSet isK8sNotFound sandboxName namespace c of
        (Inl error, c1) \<Rightarrow> (Inl error, c1)
      | (Inr (Some existingStatefulSet), c1) \<Rightarrow> (Inr (), c1)
      | (Inr None, c1) \<Rightarrow>
          (let statefulSet = statefulSet_manifest sandboxName k8sProjectName namespace containerEnv in
           case createNamespacedStatefulSet namespace statefulSet c1 of
             (Inr _, c2) \<Rightarrow> (Inr (), c2)
           | (Inl error, c2) \<Rightarrow>
               (case response_statusCode_is error 409 of
                  Inl thrown \<Rightarrow> (Inl thrown, c2)
                | Inr True \<Rightarrow> (Inr (), c2)
                | Inr False \<Rightarrow> (Inl error, c2))))"

definition service_manifest :: "string \<Rightarrow> string \<Rightarrow> string \<Rightarrow> V1Service" where
  "service_manifest sandboxName k8sProjectName namespace =
     \<lparr>service_name = getServiceName sandboxName, service_namespace = namespace,
      service_labels =
        [(''cloud.sealos.io/app-deploy-manager'', sandboxName),
         (''project.fullstackagent.io/name'', k8sProjectName)],
      service_ports = [3000, 7681, 8080],
      service_selector = sandboxName\<rparr>"

text \<open>
  The existence check of the service throws a read failure again only when the failure
  has a response object whose status code is not 404; every other failure falls through
  to the create request, which has no handler of its own.
\<close>

definition createService ::
  "string \<Rightarrow> string \<Rightarrow> string \<Rightarrow> cluster \<Rightarrow> (js_error + unit) \<times> cluster" where
  "createService sandboxName k8sProjectName namespace c =
     (let serviceName = getServiceName sandboxName in
      case readNamespacedService serviceName namespace c of
        (Inr _, c1) \<Rightarrow> (Inr (), c1)
      | (Inl error, c1) \<Rightarrow>
          (case response_statusCode_isnt error 404 of
             Inl thrown \<Rightarrow> (Inl thrown, c1)
           | Inr True \<Rightarrow> (Inl error, c1)
           | Inr False \<Rightarrow>
               (let service = service_manifest sandboxName k8sProjectName namespace in
                case createNamespacedService namespace service c1 of
                  (Inr _, c2) \<Rightarrow> (Inr (), c2)
                | (Inl error', c2) \<Rightarrow> (Inl error', c2))))"

definition createIngressIfNotExists ::
  "(js_error \<Rightarrow> bool) \<Rightarrow> string \<Rightarrow> string \<Rightarrow> V1Ingress \<Rightarrow> cluster \<Rightarrow> (js_error + unit) \<times> cluster" where
  "createIngressIfNotExists isK8sNotFound ingressName namespace ingress c =
     (case readNamespacedIngress ingressName namespace c of
        (Inr _, c1) \<Rightarrow> (Inr (), c1)
      | (Inl error, c1) \<Rightarrow>
          (if isK8sNotFound error then
             (case createNamespacedIngress namespace ingress c1 of
                (Inr _, c2) \<Rightarrow> (Inr (), c2)
              | (Inl error', c2) \<Rightarrow> (Inl error', c2))
           else (Inl error, c1)))"

definition ingress_manifest ::
  "string \<Rightarrow> string \<Rightarrow> string \<Rightarrow> string \<Rightarrow> string \<Rightarrow> string \<Rightarrow> string \<Rightarrow> nat \<Rightarrow> V1Ingress" where
  "ingress_manifest ingressName domainLabel sandboxName k8sProjectName namespace serviceName host port =
     \<lparr>ingress_name = ingressName, ingress_namespace = namespace,
      ingress_labels =
        [(''cloud.sealos.io/app-deploy-manager'', sandboxName),
         (''cloud.sealos.io/app-deploy-manager-domain'', domainLabel),
         (''project.fullstackagent.io/name'', k8sProjectName)],
      ingress_host = host, ingress_backend_service = serviceName, ingress_backend_port = port\<rparr>"

definition createAppIngress :: "string \<Rightarrow> string \<Rightarrow> string \<Rightarrow> string \<Rightarrow> string \<Rightarrow> V1Ingress" where
  "createAppIngress sandboxName k8sProjectName namespace serviceName ingressDomain =
     (let ingressName = getAppIngressName sandboxName;
          host = sandboxName @ ''-app.'' @ ingressDomain
      in ingress_manifest ingressName (sandboxName @ ''-app'') sandboxName k8sProjectName namespace
           serviceName host 3000)"

definition createTtydIngress :: "string \<Rightarrow> string \<Rightarrow> string \<Rightarrow> string \<Rightarrow> string \<Rightarrow> V1Ingress" where
  "createTtydIngress sandboxName k8sProjectName namespace serviceName ingressDomain =
     (let ingressName = getTtydIngressName sandboxName;
          host = sandboxName @ ''-ttyd.'' @ ingressDomain
      in ingress_manifest ingressName (sandboxName @ ''-ttyd'') sandboxName k8sProjectName namespace
           serviceName host 7681)"

definition createFileBrowserIngress :: "string \<Rightarrow> string \<Rightarrow> string \<Rightarrow> string \<Rightarrow> string \<Rightarrow> V1Ingress" where
  "createFileBrowserIngress sandboxName k8sProjectName namespace serviceName ingressDomain =
     (let ingressName = getFileBrowserIngressName sandboxName;
          host = sandboxName @ ''-filebrowser.'' @ ingressDomain
      in ingress_manifest ingressName (sandboxName @ ''-filebrowser'') sandboxName k8sProjectName
           namespace serviceName host 8080)"

text \<open>
  The three ingresses are created under one \<open>Promise.all\<close>. Their requests interleave
  in an order set by the answers' arrival; they concern three different ingresses, and
  the model runs them one ingress after the other.
\<close>

definition createIngresses ::
  "(js_error \<Rightarrow> bool) \<Rightarrow> string \<Rightarrow> string \<Rightarrow> string \<Rightarrow> string \<Rightarrow> string \<Rightarrow> cluster \<Rightarrow>
     (js_error + unit) list \<times> cluster" where
  "createIngresses isK8sNotFound sandboxName k8sProjectName namespace serviceName ingressDomain c =
     (let appIngressName = getAppIngressName sandboxName;
          ttydIngressName = getTtydIngressName sandboxName;
          fileBrowserIngressName = getFileBrowserIngressName sandboxName;
          appIngress = createAppIngress sandboxName k8sProjectName namespace serviceName ingressDomain;
          ttydIngress = createTtydIngress sandboxName k8sProjectName namespace serviceName ingressDomain;
          fileBrowserIngress =
            createFileBrowserIngress sandboxName k8sProjectName namespace serviceName ingressDomain;
          (p1, c1) = createIngressIfNotExists isK8sNotFound appIngressName namespace appIngress c;
          (p2, c2) = createIngressIfNotExists isK8sNotFound ttydIngressName namespace ttydIngress c1;
          (p3, c3) =
            createIngressIfNotExists isK8sNotFound fileBrowserIngressName namespace fileBrowserIngress c2
      in (Promise_all [p1, p2, p3], c3))"

section \<open>Base64 of a string\<close>

text \<open>
  \<open>Buffer.from(s).toString('base64')\<close>: the UTF-8 bytes of the string in the standard
  alphabet, padded with \<open>=\<close>. A character of a \<open>string\<close> is a code point below 256; one
  from 128 on takes two bytes.
\<close>

definition utf8 :: "string \<Rightarrow> nat list" where
  "utf8 s =
     concat (map (\<lambda>ch. let n = (of_char ch :: nat) in
                        if n < 128 then [n] else [192 + n div 64, 128 + n mod 64]) s)"

definition base64_char :: "nat \<Rightarrow> char" where
  "base64_char n =
     (let i = n mod 64 in
      if i < 26 then char_of (of_char (CHR ''A'') + i)
      else if i < 52 then char_of (of_char (CHR ''a'') + (i - 26))
      else if i < 62 then char_of (of_char (CHR ''0'') + (i - 52))
      else if i = 62 then CHR ''+'' else CHR ''/'')"

fun base64 :: "nat list \<Rightarrow> string" where
  "base64 [] = []"
| "base64 [a] = [base64_char (a div 4), base64_char ((a mod 4) * 16), CHR ''='', CHR ''='']"
| "base64 [a, b] =
     [base64_char (a div 4), base64_char ((a mod 4) * 16 + b div 16),
      base64_char ((b mod 16) * 4), CHR ''='']"
| "base64 (a # b # c # rest) =
     [base64_char (a div 4), base64_char ((a mod 4) * 16 + b div 16),
      base64_char ((b mod 16) * 4 + c div 64), base64_char (c mod 64)] @ base64 rest"

section \<open>Create sandbox\<close>

record SandboxInfo =
  statefulSetName :: string
  serviceName :: string
  publicUrl :: string
  ttydUrl :: string
  fileBrowserUrl :: string

text \<open>
  What \<open>createSandbox\<close> computes after the three creations: the terminal URL, with the
  credential when \<open>envVars['TTYD_ACCESS_TOKEN']\<close> is truthy, and the returned object.
\<close>

definition sandboxInfo_of :: "string \<Rightarrow> string \<Rightarrow> string \<Rightarrow> Record \<Rightarrow> SandboxInfo" where
  "sandboxInfo_of sandboxName serviceName' ingressDomain envVars =
     (let baseTtydUrl = ''https://'' @ sandboxName @ ''-ttyd.'' @ ingressDomain;
          ttydAccessToken = Record_get envVars ''TTYD_ACCESS_TOKEN'';
          ttydUrl' =
            (case ttydAccessToken of
               None \<Rightarrow> baseTtydUrl
             | Some token \<Rightarrow>
                 if token = [] then baseTtydUrl
                 else
                   (let credentials = ''user:'' @ token;
                        authBase64 = base64 (utf8 credentials)
                    in baseTtydUrl @ ''?authorization='' @ authBase64));
          fileBrowserUrl' = ''https://'' @ sandboxName @ ''-filebrowser.'' @ ingressDomain
      in \<lparr>statefulSetName = sandboxName, serviceName = serviceName',
          publicUrl = ''https://'' @ sandboxName @ ''-app.'' @ ingressDomain,
          ttydUrl = ttydUrl', fileBrowserUrl = fileBrowserUrl'\<rparr>)"

text \<open>
  \<open>toK8sProjectName\<close> belongs to a module outside these sources and is a parameter. The
  result lists the settlements the call may have (one, unless several ingress creations
  fail).
\<close>

definition createSandbox ::
  "(string \<Rightarrow> string) \<Rightarrow> (js_error \<Rightarrow> bool) \<Rightarrow> string \<Rightarrow> string \<Rightarrow> string \<Rightarrow> string \<Rightarrow> Record \<Rightarrow>
     cluster \<Rightarrow> (js_error + SandboxInfo) list \<times> cluster" where
  "createSandbox toK8sProjectName isK8sNotFound projectName namespace ingressDomain sandboxName envVars c =
     (let k8sProjectName = toK8sProjectName projectName;
          containerEnv = Record_set ''PROJECT_NAME'' projectName (spread [] envVars)
      in
      case createStatefulSet isK8sNotFound sandboxName k8sProjectName namespace containerEnv c of
        (Inl error, c1) \<Rightarrow> ([Inl error], c1)
      | (Inr _, c1) \<Rightarrow>
          (let serviceName' = getServiceName sandboxName in
           case createService sandboxName k8sProjectName namespace c1 of
             (Inl error, c2) \<Rightarrow> ([Inl error], c2)
           | (Inr _, c2) \<Rightarrow>
               (case createIngresses isK8sNotFound sandboxName k8sProjectName namespace serviceName'
                       ingressDomain c2 of
                  (settled, c3) \<Rightarrow>
                    (map (\<lambda>p. case p of
                                 Inl error \<Rightarrow> Inl error
                               | Inr _ \<Rightarrow> Inr (sandboxInfo_of sandboxName serviceName' ingressDomain envVars))
                       settled,
                     c3))))"

section \<open>Answers to the deletions\<close>

text \<open>
  The answers the cluster gives to the deletion of the StatefulSet, of the service and
  of the three ingresses of a sandbox, in this order.
\<close>

definition resource_delete_answers :: "string \<Rightarrow> string \<Rightarrow> cluster \<Rightarrow> (js_error + unit) list" where
  "resource_delete_answers sandboxName namespace c =
     [fst (deleteNamespacedStatefulSet sandboxName namespace c),
      fst (deleteNamespacedService (sandboxName @ ''-service'') namespace c),
      fst (deleteNamespacedIngress (sandboxName @ ''-app-ingress'') namespace c),
      fst (deleteNamespacedIngress (sandboxName @ ''-ttyd-ingress'') namespace c),
      fst (deleteNamespacedIngress (sandboxName @ ''-filebrowser-ingress'') namespace c)]"

text \<open>An answer passes when it is a success or a failure that \<open>isK8sNotFound\<close> accepts.\<close>

definition passes :: "(js_error \<Rightarrow> bool) \<Rightarrow> js_error + unit \<Rightarrow> bool" where
  "passes isK8sNotFound answer = (case answer of Inr _ \<Rightarrow> True | Inl e \<Rightarrow> isK8sNotFound e)"

text \<open>What the \<open>catch\<close> block of a deletion makes of an answer: a passing one is a success.\<close>

definition tolerate :: "(js_error \<Rightarrow> bool) \<Rightarrow> js_error + unit \<Rightarrow> js_error + unit" where
  "tolerate isK8sNotFound answer = (if passes isK8sNotFound answer then Inr () else answer)"


section \<open>Strings and numbers of the runtime\<close>

text \<open>
  The white space that \<open>trim\<close> and \<open>parseInt\<close> strip, among the characters below 256:
  tab, line feed, vertical tab, form feed, carriage return, space, no-break space.
\<close>

definition isWhiteSpace :: "char \<Rightarrow> bool" where
  "isWhiteSpace ch = ((of_char ch :: nat) \<in> {9, 10, 11, 12, 13, 32, 160})"

definition trim :: "string \<Rightarrow> string" where
  "trim s = rev (dropWhile isWhiteSpace (rev (dropWhile isWhiteSpace s)))"

definition isDigit :: "char \<Rightarrow> bool" where
  "isDigit ch = (48 \<le> (of_char ch :: nat) \<and> (of_char ch :: nat) \<le> 57)"

definition digits_value :: "string \<Rightarrow> int" where
  "digits_value Z = fold (\<lambda>ch n. 10 * n + (of_char ch - 48)) Z 0"

text \<open>
  The numbers \<open>parseInt\<close> returns here. A double holds every integer of magnitude up
  to \<open>2^53\<close> exactly; a longer digit run is rounded by the runtime, and the model keeps
  such a number as the sign and the digits it was read from, without saying which double
  it is.
\<close>

datatype js_number = Integer int | Rounded bool string

text \<open>
  \<open>parseInt(s, 10)\<close>: leading white space is skipped, one sign is read, and the longest
  run of decimal digits that follows is the number; \<open>None\<close> is \<open>NaN\<close>, the result when
  there is no digit.
\<close>

definition parseInt10 :: "string \<Rightarrow> js_number option" where
  "parseInt10 inputString =
     (let S = dropWhile isWhiteSpace inputString;
          negative = (S \<noteq> [] \<and> hd S = CHR ''-'');
          S' = (if S \<noteq> [] \<and> (hd S = CHR ''+'' \<or> hd S = CHR ''-'') then tl S else S);
          Z = takeWhile isDigit S'
      in if Z = [] then None
         else if digits_value Z \<le> 9007199254740992
         then Some (Integer ((if negative then - 1 else 1) * digits_value Z))
         else Some (Rounded negative Z))"

text \<open>\<open>String(n)\<close> for a natural number.\<close>

fun string_of_nat :: "nat \<Rightarrow> string" where
  "string_of_nat n =
     (let units = [char_of (n mod 10 + 48)]
      in if 10 \<le> n then string_of_nat (n div 10) @ units else units)"

section \<open>Remote exec\<close>

text \<open>
  One run of \<open>exec.exec\<close>: the chunks written to the two streams before the run ends,
  and how it ends. The manager calls \<open>exec.exec\<close> inside the executor of a promise of
  its own and drops what the call returns. So a run ends for the manager by calling the
  status callback, or by throwing inside the executor. A run whose returned promise
  rejects (the connection to the pod fails) or that never calls back ends in neither
  way, and the manager's promise stays pending.
\<close>

record V1Status =
  status_status :: "string option"
  status_message :: "string option"

datatype exec_end = StatusCallback V1Status | ExecThrows js_error | ExecRejects js_error | NoCallback

record exec_run =
  stdout_chunks :: "string list"
  stderr_chunks :: "string list"
  exec_end :: exec_end

type_synonym Exec = "string \<Rightarrow> string \<Rightarrow> string \<Rightarrow> string list \<Rightarrow> exec_run"

record ExecResult =
  success :: bool
  pid :: "js_number option"
  error :: "string option"

text \<open>\<open>a || b\<close> on an optional string: an absent and an empty \<open>a\<close> give \<open>b\<close>.\<close>

definition or_else :: "string option \<Rightarrow> string \<Rightarrow> string" where
  "or_else a b = (case a of None \<Rightarrow> b | Some s \<Rightarrow> if s = [] then b else s)"

definition background_script :: "string \<Rightarrow> string \<Rightarrow> nat \<Rightarrow> string" where
  "background_script workdir command timestamp =
     trim
       ([CHR 0x0A] @ ''#!/bin/bash'' @ [CHR 0x0A] @
        ''cd '' @ [CHR 0x22] @ workdir @ [CHR 0x22] @ '' || exit 1'' @ [CHR 0x0A] @
        ''mkdir -p /tmp/exec-logs'' @ [CHR 0x0A] @
        ''nohup '' @ command @ '' > /tmp/exec-logs/'' @ string_of_nat timestamp @ ''.log 2>&1 &'' @
        [CHR 0x0A] @
        ''echo $!'' @ [CHR 0x0A])"

text \<open>
  The settlement of the promise around \<open>exec.exec\<close>: \<open>None\<close> while it stays pending.
\<close>

definition exec_promise :: "exec_run \<Rightarrow> (js_error + unit) option" where
  "exec_promise run =
     (let errorOutput = concat (stderr_chunks run) in
      case exec_end run of
        StatusCallback st \<Rightarrow>
          if status_status st = Some ''Success'' then Some (Inr ())
          else Some (Inl (new_Error (''Command failed: '' @ or_else (status_message st) errorOutput)))
      | ExecThrows e \<Rightarrow> Some (Inl e)
      | ExecRejects e \<Rightarrow> None
      | NoCallback \<Rightarrow> None)"

text \<open>
  \<open>timestamp\<close> is the value of \<open>Date.now()\<close>; \<open>workdir\<close> is \<open>None\<close> when the caller
  leaves it out. The result is \<open>None\<close> when the call never returns.
\<close>

definition execCommandInBackground ::
  "Exec \<Rightarrow> nat \<Rightarrow> string \<Rightarrow> string \<Rightarrow> string \<Rightarrow> string option \<Rightarrow> (js_error + ExecResult) option" where
  "execCommandInBackground exec timestamp namespace sandboxName command workdir =
     (let workdir' = (case workdir of None \<Rightarrow> ''/home/fulling'' | Some w \<Rightarrow> w);
          podName = sandboxName @ ''-0'';
          script = background_script workdir' command timestamp;
          run = exec namespace podName sandboxName [''bash'', ''-c'', script];
          output = concat (stdout_chunks run)
      in
      case exec_promise run of
        None \<Rightarrow> None
      | Some (Inr _) \<Rightarrow>
          (case parseInt10 (trim output) of
             None \<Rightarrow>
               Some (Inr \<lparr>success = False, pid = None,
                          error = Some (''Failed to parse PID from output: '' @ output)\<rparr>)
           | Some pid' \<Rightarrow> Some (Inr \<lparr>success = True, pid = Some pid', error = None\<rparr>))
      | Some (Inl error') \<Rightarrow>
          Some (Inr \<lparr>success = False, pid = None, error = Some (message error')\<rparr>))"

text \<open>The run that a call of \<open>execCommandInBackground\<close> starts.\<close>

definition background_run :: "Exec \<Rightarrow> nat \<Rightarrow> string \<Rightarrow> string \<Rightarrow> string \<Rightarrow> string option \<Rightarrow> exec_run" where
  "background_run exec timestamp namespace sandboxName command workdir =
     exec namespace (sandboxName @ ''-0'') sandboxName
       [''bash'', ''-c'',
        background_script (case workdir of None \<Rightarrow> ''/home/fulling'' | Some w \<Rightarrow> w) command timestamp]"

text \<open>
  A text is numeric when, after leading white space, it starts with a decimal digit, or
  with a sign and a decimal digit.
\<close>

definition numeric :: "string \<Rightarrow> bool" where
  "numeric s =
     (case dropWhile isWhiteSpace s of
        [] \<Rightarrow> False
      | ch # rest \<Rightarrow>
          if ch = CHR ''-'' \<or> ch = CHR ''+'' then (case rest of [] \<Rightarrow> False | d # _ \<Rightarrow> isDigit d)
          else isDigit ch)"

text \<open>An exec client whose every run gives the same chunks and end.\<close>

definition constant_exec :: "string list \<Rightarrow> string list \<Rightarrow> exec_end \<Rightarrow> Exec" where
  "constant_exec out err end' =
     (\<lambda>namespace podName containerName command.
        \<lparr>stdout_chunks = out, stderr_chunks = err, exec_end = end'\<rparr>)"


section \<open>Status derivation: theorems\<close>

lemma derive_status_status:
  "status (derive_status s) =
     (if declared s = 0 then (if observed_current s > 0 then STOPPING else STOPPED)
      else if declared s > 0 \<and> observed_total s = declared s \<and> observed_ready s = declared s \<and>
              observed_current s = declared s \<and> observed_updated s = declared s
           then RUNNING else STARTING)"
  by (simp add: derive_status_def declared_def observed_total_def observed_ready_def
      observed_current_def observed_updated_def Let_def)

text \<open>
  C1. Whenever the read finds the StatefulSet, the status query returns a detail whose
  status follows the replica counts: with zero declared replicas it is STOPPING while
  current replicas remain and STOPPED when none remain; with a positive declared count
  it is RUNNING exactly when the observed total, ready, current and updated counts all
  equal the declared count, and STARTING otherwise.
\<close>

theorem getStatefulSetStatus_classifies:
  assumes "getStatefulSet isK8sNotFound sandboxName namespace c = (Inr (Some s), c')"
  shows "\<exists>d. getStatefulSetStatus isK8sNotFound sandboxName namespace c = (Inr d, c') \<and>
           (declared s = 0 \<longrightarrow>
              (observed_current s > 0 \<longrightarrow> status d = STOPPING) \<and>
              (observed_current s = 0 \<longrightarrow> status d = STOPPED)) \<and>
           (declared s > 0 \<longrightarrow>
              (status d = RUNNING \<longleftrightarrow>
                 observed_total s = declared s \<and> observed_ready s = declared s \<and>
                 observed_current s = declared s \<and> observed_updated s = declared s) \<and>
              (status d \<noteq> RUNNING \<longrightarrow> status d = STARTING))"
proof -
  have run: "getStatefulSetStatus isK8sNotFound sandboxName namespace c = (Inr (derive_status s), c')"
    using assms by (simp add: getStatefulSetStatus_def)
  show ?thesis
    unfolding run by (rule exI [of _ "derive_status s"]) (simp add: derive_status_status)
qed

theorem getStatefulSetStatus_classifies_witness:
  "\<exists>d. fst (getStatefulSetStatus is404 ''acme-x1'' ''ns1''
            (empty_cluster\<lparr>statefulSets :=
               [(''ns1'', ''acme-x1'') \<mapsto> sts_with_counts ''acme-x1'' ''ns1'' 2 2 2 2 1]\<rparr>)) = Inr d \<and>
        status d = STARTING \<and> status d \<noteq> RUNNING"
proof -
  let ?s = "sts_with_counts ''acme-x1'' ''ns1'' 2 2 2 2 1"
  let ?c = "empty_cluster\<lparr>statefulSets := [(''ns1'', ''acme-x1'') \<mapsto> ?s]\<rparr>"
  have found: "getStatefulSet is404 ''acme-x1'' ''ns1'' ?c =
      (Inr (Some ?s), log_call (ReadNamespacedStatefulSet ''acme-x1'' ''ns1'') ?c)"
    by (simp add: getStatefulSet_def readNamespacedStatefulSet_def empty_cluster_def Let_def)
  have counts: "declared ?s = 2" "observed_total ?s = 2" "observed_ready ?s = 2"
    "observed_current ?s = 2" "observed_updated ?s = 1"
    by (simp_all add: declared_def observed_total_def observed_ready_def observed_current_def
        observed_updated_def sts_with_counts_def or_zero_def)
  from getStatefulSetStatus_classifies [OF found] obtain d where
    d: "getStatefulSetStatus is404 ''acme-x1'' ''ns1'' ?c =
          (Inr d, log_call (ReadNamespacedStatefulSet ''acme-x1'' ''ns1'') ?c)"
    and pos: "declared ?s > 0 \<longrightarrow>
          (status d = RUNNING \<longleftrightarrow>
             observed_total ?s = declared ?s \<and> observed_ready ?s = declared ?s \<and>
             observed_current ?s = declared ?s \<and> observed_updated ?s = declared ?s) \<and>
          (status d \<noteq> RUNNING \<longrightarrow> status d = STARTING)"
    by blast
  from pos have "status d \<noteq> RUNNING" "status d = STARTING"
    by (simp_all add: counts)
  with d show ?thesis by simp
qed

lemma getStatefulSetStatus_of_read_error:
  assumes "readNamespacedStatefulSet sandboxName namespace c = (Inl e, c')"
  shows "getStatefulSetStatus isK8sNotFound sandboxName namespace c =
           (if isK8sNotFound e then Inr (zero_detail TERMINATED)
            else (case response_statusCode_is e 404 of
                    Inl thrown \<Rightarrow> Inl thrown
                  | Inr True \<Rightarrow> Inr (zero_detail TERMINATED)
                  | Inr False \<Rightarrow> Inr (zero_detail ERROR)), c')"
  using assms by (simp add: getStatefulSetStatus_def getStatefulSet_def getStatefulSetStatus_catch_def)

lemma getStatefulSetStatus_of_read_ok:
  assumes "readNamespacedStatefulSet sandboxName namespace c = (Inr s, c')"
  shows "getStatefulSetStatus isK8sNotFound sandboxName namespace c = (Inr (derive_status s), c')"
  using assms by (simp add: getStatefulSetStatus_def getStatefulSet_def)

lemma http_error_statusCode [simp]:
  "response_statusCode_is (http_error n) m = Inr (n = m)"
  "response_statusCode_isnt (http_error n) m = Inr (n \<noteq> m)"
  by (simp_all add: response_statusCode_is_def response_statusCode_isnt_def http_error_def)

text \<open>
  When the read fails with a value whose \<open>response\<close> is not \<open>null\<close>, the status query
  returns: TERMINATED for a not-found (one that \<open>isK8sNotFound\<close> accepts, or one whose
  nested status code is 404), ERROR otherwise, the counters being zero in both.
\<close>

lemma getStatefulSetStatus_read_failure:
  assumes "fst (readNamespacedStatefulSet sandboxName namespace c) = Inl e"
    and "response e \<noteq> Some NullResponse"
  shows "fst (getStatefulSetStatus isK8sNotFound sandboxName namespace c) =
           Inr (zero_detail
                 (if isK8sNotFound e \<or> response_statusCode_is e 404 = Inr True
                  then TERMINATED else ERROR))"
proof -
  from assms(1) have read: "readNamespacedStatefulSet sandboxName namespace c =
      (Inl e, snd (readNamespacedStatefulSet sandboxName namespace c))"
    by (simp add: prod_eq_iff)
  from assms(2) have "response_statusCode_is e 404 = Inr True \<or> response_statusCode_is e 404 = Inr False"
    by (cases "response e") (auto simp add: response_statusCode_is_def split: js_response.splits)
  then show ?thesis
    by (auto simp add: getStatefulSetStatus_of_read_error [OF read])
qed

text \<open>
  C2, evaluated. The read fails with a value whose \<open>response\<close> property is \<open>null\<close>,
  and which is not a not-found. The guard of the \<open>catch\<close> block lets it pass
  (\<open>typeof null\<close> is \<open>'object'\<close>) and reads \<open>statusCode\<close> of \<open>null\<close>: the status query
  throws a \<open>TypeError\<close> where the claim has it return ERROR.
\<close>

theorem getStatefulSetStatus_throws_on_null_response:
  "fst (getStatefulSetStatus is404 ''acme-x1'' ''ns1''
          (empty_cluster\<lparr>faults := (\<lambda>call. Some (JsError ''socket hang up'' (Some NullResponse) None))\<rparr>)) =
     Inl (TypeError ''null'' ''statusCode'')"
  by (simp add: getStatefulSetStatus_def getStatefulSet_def readNamespacedStatefulSet_def
      getStatefulSetStatus_catch_def response_statusCode_is_def empty_cluster_def is404_def Let_def)


section \<open>Stop: theorems\<close>

lemma log_call_simps [simp]:
  "faults (log_call x c) = faults c"
  "statefulSets (log_call x c) = statefulSets c"
  "services (log_call x c) = services c"
  "ingresses (log_call x c) = ingresses c"
  "persistentVolumeClaims (log_call x c) = persistentVolumeClaims c"
  "calls (log_call x c) = calls c @ [x]"
  by (simp_all add: log_call_def)

lemma resources_log_call [simp]: "resources (log_call x c) = resources c"
  by (simp add: resources_def)

lemma writes_log_call [simp]: "writes (log_call x c) = writes c @ (if is_read x then [] else [x])"
  by (simp add: writes_def)

lemma getStatefulSet_unfold:
  "getStatefulSet isNF name ns c =
     ((case faults c (ReadNamespacedStatefulSet name ns) of
         Some e \<Rightarrow> if isNF e then Inr None else Inl e
       | None \<Rightarrow> (case statefulSets c (ns, name) of
                    None \<Rightarrow> if isNF (http_error 404) then Inr None else Inl (http_error 404)
                  | Some s \<Rightarrow> Inr (Some s))),
      log_call (ReadNamespacedStatefulSet name ns) c)"
  by (simp add: getStatefulSet_def readNamespacedStatefulSet_def Let_def split: option.split)

lemma getStatefulSet_collapse:
  "fst (getStatefulSet isNF name ns c) = r \<Longrightarrow>
   getStatefulSet isNF name ns c = (r, log_call (ReadNamespacedStatefulSet name ns) c)"
  by (simp add: getStatefulSet_unfold)

lemma patch_replicas_unfold:
  "patchNamespacedStatefulSet name ns [Replace ''/spec/replicas'' v] c =
     (let P = PatchNamespacedStatefulSet name ns [Replace ''/spec/replicas'' v]; c' = log_call P c in
      case faults c P of
        Some e \<Rightarrow> (Inl e, c')
      | None \<Rightarrow>
        (case statefulSets c (ns, name) of
           None \<Rightarrow> (Inl (http_error 404), c')
         | Some s \<Rightarrow>
           (case sts_spec s of
              None \<Rightarrow> (Inl (http_error 422), c')
            | Some sp \<Rightarrow>
              (case spec_replicas sp of
                 None \<Rightarrow> (Inl (http_error 422), c')
               | Some n \<Rightarrow>
                  (Inr (s\<lparr>sts_spec := Some (sp\<lparr>spec_replicas := Some v\<rparr>)\<rparr>),
                   c'\<lparr>statefulSets := (statefulSets c)((ns, name) \<mapsto>
                        s\<lparr>sts_spec := Some (sp\<lparr>spec_replicas := Some v\<rparr>)\<rparr>)\<rparr>)))))"
  by (simp add: patchNamespacedStatefulSet_def apply_patch_op_def Let_def split: option.split)

lemma stopSandbox_unfold:
  "stopSandbox isNF ns name c =
     (let R = ReadNamespacedStatefulSet name ns;
          P = PatchNamespacedStatefulSet name ns [Replace ''/spec/replicas'' 0];
          c1 = log_call R c; c2 = log_call P c1 in
      case faults c R of
        Some e \<Rightarrow> (if isNF e then (Inr (), c1) else (Inl e, c1))
      | None \<Rightarrow>
        (case statefulSets c (ns, name) of
           None \<Rightarrow> (if isNF (http_error 404) then (Inr (), c1) else (Inl (http_error 404), c1))
         | Some s \<Rightarrow>
           (case sts_spec s of
              None \<Rightarrow> (Inr (), c1)
            | Some sp \<Rightarrow>
              (case spec_replicas sp of
                 None \<Rightarrow> (Inr (), c1)
               | Some n \<Rightarrow>
                   if n = 0 then (Inr (), c1)
                   else
                     (case faults c P of
                        Some e \<Rightarrow> (Inl e, c2)
                      | None \<Rightarrow>
                          (Inr (), c2\<lparr>statefulSets := (statefulSets c)((ns, name) \<mapsto>
                                     s\<lparr>sts_spec := Some (sp\<lparr>spec_replicas := Some 0\<rparr>)\<rparr>)\<rparr>))))))"
  by (simp add: stopSandbox_def getStatefulSet_unfold patch_replicas_unfold or_zero_def
      Let_def split: option.split)

lemma stopSandbox_twice:
  assumes "stopSandbox isNF ns name c = (r1, c1)" and "stopSandbox isNF ns name c1 = (r2, c2)"
  shows "resources c2 = resources c1 \<and> (r1 = Inr () \<longrightarrow> r2 = Inr () \<and> writes c2 = writes c1)"
proof (cases "faults c (ReadNamespacedStatefulSet name ns)")
  case (Some e)
  with assms show ?thesis
    by (auto simp add: stopSandbox_unfold Let_def split: if_splits)
next
  case None
  note noFault = None
  show ?thesis
  proof (cases "statefulSets c (ns, name)")
    case None
    with noFault assms show ?thesis
      by (auto simp add: stopSandbox_unfold Let_def split: if_splits)
  next
    case (Some s)
    note found = Some
    show ?thesis
    proof (cases "or_zero (Option.bind (sts_spec s) spec_replicas) = 0")
      case True
      with noFault found assms show ?thesis
        by (auto simp add: stopSandbox_unfold or_zero_def Let_def split: if_splits option.splits)
    next
      case False
      then obtain sp n where sp: "sts_spec s = Some sp" "spec_replicas sp = Some n" "n \<noteq> 0"
        by (auto simp add: or_zero_def split: option.splits Option.bind_splits)
      show ?thesis
      proof (cases "faults c (PatchNamespacedStatefulSet name ns [Replace ''/spec/replicas'' 0])")
        case None
        with noFault found sp assms show ?thesis
          by (auto simp add: stopSandbox_unfold Let_def)
      next
        case (Some e)
        with noFault found sp assms show ?thesis
          by (auto simp add: stopSandbox_unfold Let_def)
      qed
    qed
  qed
qed

lemma stopSandbox_no_patch:
  assumes "fst (getStatefulSet isNF name ns c) = Inr None \<or>
           (\<exists>s. fst (getStatefulSet isNF name ns c) = Inr (Some s) \<and> declared s = 0)"
  shows "stopSandbox isNF ns name c = (Inr (), log_call (ReadNamespacedStatefulSet name ns) c)"
  using assms
  by (auto dest!: getStatefulSet_collapse simp add: stopSandbox_def declared_def)

lemma stopSandbox_patches:
  assumes "fst (getStatefulSet isNF name ns c) = Inr (Some s)" and "declared s \<noteq> 0"
  shows "calls (snd (stopSandbox isNF ns name c)) =
           calls c @ [ReadNamespacedStatefulSet name ns,
                      PatchNamespacedStatefulSet name ns [Replace ''/spec/replicas'' 0]]"
  using assms
  by (auto dest!: getStatefulSet_collapse
      simp add: stopSandbox_def declared_def patch_replicas_unfold Let_def split: option.splits)

text \<open>
  C5. Stopping twice leaves the resources of the cluster as stopping once leaves them,
  and after a stop that succeeded a second stop succeeds without sending any write.
  A stop returns without a write when the StatefulSet is absent, and when its declared
  replicas are already 0; otherwise the requests it sends are the read followed by one
  patch that replaces \<open>/spec/replicas\<close> by 0.
\<close>

theorem stopSandbox_idempotent:
  assumes "stopSandbox isK8sNotFound namespace sandboxName c = (r1, c1)"
    and "stopSandbox isK8sNotFound namespace sandboxName c1 = (r2, c2)"
  shows "resources c2 = resources c1 \<and>
         (r1 = Inr () \<longrightarrow> r2 = Inr () \<and> writes c2 = writes c1) \<and>
         (fst (getStatefulSet isK8sNotFound sandboxName namespace c) = Inr None \<longrightarrow>
            r1 = Inr () \<and> writes c1 = writes c \<and> resources c1 = resources c) \<and>
         (\<forall>s. fst (getStatefulSet isK8sNotFound sandboxName namespace c) = Inr (Some s) \<and> declared s = 0 \<longrightarrow>
            r1 = Inr () \<and> writes c1 = writes c \<and> resources c1 = resources c) \<and>
         (\<forall>s. fst (getStatefulSet isK8sNotFound sandboxName namespace c) = Inr (Some s) \<and> declared s \<noteq> 0 \<longrightarrow>
            calls c1 = calls c @ [ReadNamespacedStatefulSet sandboxName namespace,
              PatchNamespacedStatefulSet sandboxName namespace [Replace ''/spec/replicas'' 0]])"
proof -
  have twice: "resources c2 = resources c1 \<and> (r1 = Inr () \<longrightarrow> r2 = Inr () \<and> writes c2 = writes c1)"
    using assms by (rule stopSandbox_twice)
  have absent: "fst (getStatefulSet isK8sNotFound sandboxName namespace c) = Inr None \<longrightarrow>
      r1 = Inr () \<and> writes c1 = writes c \<and> resources c1 = resources c"
    using assms(1) stopSandbox_no_patch [of isK8sNotFound sandboxName namespace c] by auto
  have stopped: "\<forall>s. fst (getStatefulSet isK8sNotFound sandboxName namespace c) = Inr (Some s) \<and> declared s = 0 \<longrightarrow>
      r1 = Inr () \<and> writes c1 = writes c \<and> resources c1 = resources c"
    using assms(1) stopSandbox_no_patch [of isK8sNotFound sandboxName namespace c] by auto
  have running: "\<forall>s. fst (getStatefulSet isK8sNotFound sandboxName namespace c) = Inr (Some s) \<and> declared s \<noteq> 0 \<longrightarrow>
      calls c1 = calls c @ [ReadNamespacedStatefulSet sandboxName namespace,
        PatchNamespacedStatefulSet sandboxName namespace [Replace ''/spec/replicas'' 0]]"
    using assms(1) stopSandbox_patches [of isK8sNotFound sandboxName namespace c] by auto
  from twice absent stopped running show ?thesis by blast
qed

theorem stopSandbox_idempotent_witness:
  "fst (stopSandbox is404 ''ns1'' ''acme-x1'' (cluster_with (sts_with_counts ''acme-x1'' ''ns1'' 1 1 1 1 1))) = Inr () \<and>
   calls (snd (stopSandbox is404 ''ns1'' ''acme-x1'' (cluster_with (sts_with_counts ''acme-x1'' ''ns1'' 1 1 1 1 1)))) =
     [ReadNamespacedStatefulSet ''acme-x1'' ''ns1'',
      PatchNamespacedStatefulSet ''acme-x1'' ''ns1'' [Replace ''/spec/replicas'' 0]] \<and>
   fst (stopSandbox is404 ''ns1'' ''acme-x1''
         (snd (stopSandbox is404 ''ns1'' ''acme-x1'' (cluster_with (sts_with_counts ''acme-x1'' ''ns1'' 1 1 1 1 1))))) = Inr () \<and>
   writes (snd (stopSandbox is404 ''ns1'' ''acme-x1''
         (snd (stopSandbox is404 ''ns1'' ''acme-x1'' (cluster_with (sts_with_counts ''acme-x1'' ''ns1'' 1 1 1 1 1)))))) =
     writes (snd (stopSandbox is404 ''ns1'' ''acme-x1'' (cluster_with (sts_with_counts ''acme-x1'' ''ns1'' 1 1 1 1 1)))) \<and>
   resources (snd (stopSandbox is404 ''ns1'' ''acme-x1''
         (snd (stopSandbox is404 ''ns1'' ''acme-x1'' (cluster_with (sts_with_counts ''acme-x1'' ''ns1'' 1 1 1 1 1)))))) =
     resources (snd (stopSandbox is404 ''ns1'' ''acme-x1'' (cluster_with (sts_with_counts ''acme-x1'' ''ns1'' 1 1 1 1 1))))"
proof -
  let ?s = "sts_with_counts ''acme-x1'' ''ns1'' 1 1 1 1 1"
  let ?c = "cluster_with ?s"
  let ?once = "stopSandbox is404 ''ns1'' ''acme-x1'' ?c"
  let ?twice = "stopSandbox is404 ''ns1'' ''acme-x1'' (snd ?once)"
  have first: "?once = (fst ?once, snd ?once)" and second: "?twice = (fst ?twice, snd ?twice)"
    by simp_all
  have found: "fst (getStatefulSet is404 ''acme-x1'' ''ns1'' ?c) = Inr (Some ?s)"
    by (simp add: getStatefulSet_unfold cluster_with_def empty_cluster_def sts_with_counts_def)
  have running: "declared ?s \<noteq> 0"
    by (simp add: declared_def sts_with_counts_def or_zero_def)
  have ok: "fst ?once = Inr ()"
    by (simp add: stopSandbox_unfold cluster_with_def empty_cluster_def sts_with_counts_def Let_def)
  have fresh: "calls ?c = []"
    by (simp add: cluster_with_def empty_cluster_def)
  from stopSandbox_idempotent [OF first second] found running ok fresh show ?thesis
    by simp
qed


section \<open>Environment variables: theorems\<close>

lemma map_of_Record_set: "map_of (Record_set k v r) = (map_of r)(k \<mapsto> v)"
  by (induction r) auto

lemma keys_Record_set: "set (map fst (Record_set k v r)) = insert k (set (map fst r))"
proof (induction r)
  case Nil
  then show ?case by simp
next
  case (Cons p r)
  obtain k' v' where p: "p = (k', v')" by (cases p)
  have "set (map fst ((k', v') # Record_set k v r)) = insert k' (set (map fst (Record_set k v r)))"
    by simp
  also have "\<dots> = insert k' (insert k (set (map fst r)))"
    by (simp only: Cons.IH)
  finally show ?case
    by (cases "k' = k") (simp_all add: p insert_commute)
qed

lemma distinct_Record_set:
  "distinct (map fst r) \<Longrightarrow> distinct (map fst (Record_set k v r))"
proof (induction r)
  case Nil
  then show ?case by simp
next
  case (Cons p r)
  obtain k' v' where p: "p = (k', v')" by (cases p)
  from Cons.prems have fresh: "k' \<notin> set (map fst r)" and rest: "distinct (map fst r)"
    by (simp_all add: p)
  show ?case
  proof (cases "k' = k")
    case True
    with fresh rest show ?thesis by (simp add: p)
  next
    case False
    have "k' \<notin> set (map fst (Record_set k v r))"
      using False fresh by (simp only: keys_Record_set) simp
    with False Cons.IH [OF rest] show ?thesis by (simp add: p)
  qed
qed

lemma distinct_spread:
  "distinct (map fst a) \<Longrightarrow> distinct (map fst (spread a b))"
  unfolding spread_def
  by (induction b arbitrary: a) (auto simp add: distinct_Record_set)

lemma distinct_fold_currentEnvMap_step:
  "distinct (map fst acc) \<Longrightarrow> distinct (map fst (fold currentEnvMap_step env acc))"
  by (induction env arbitrary: acc)
    (auto simp add: currentEnvMap_step_def distinct_Record_set split: option.splits)

lemma distinct_currentEnvMap_of: "distinct (map fst (currentEnvMap_of env))"
  by (cases env) (simp_all add: currentEnvMap_of_def distinct_fold_currentEnvMap_step)

lemma Record_get_spread:
  "Record_get (spread a b) k =
     (case map_of (rev b) k of Some v \<Rightarrow> Some v | None \<Rightarrow> Record_get a k)"
  unfolding spread_def Record_get_def
proof (induction b arbitrary: a)
  case Nil
  then show ?case by simp
next
  case (Cons p b)
  obtain k' v' where p: "p = (k', v')" by (cases p)
  show ?case
    by (simp add: p Cons.IH map_of_Record_set map_add_def split: option.splits)
qed

lemma map_of_rev_distinct:
  "distinct (map fst xs) \<Longrightarrow> map_of (rev xs) = map_of xs"
  by (induction xs) (auto simp add: map_add_def fun_eq_iff split: option.splits dest: map_of_SomeD
      intro: rev_image_eqI)

lemma Record_get_spread_requested:
  assumes "distinct (map fst b)" and "(k, v) \<in> set b"
  shows "Record_get (spread a b) k = Some v"
  using assms by (simp add: Record_get_spread map_of_rev_distinct)

lemma Record_get_spread_kept:
  assumes "k \<notin> fst ` set b"
  shows "Record_get (spread a b) k = Record_get a k"
proof -
  have "map_of (rev b) k = None"
    using assms by (simp add: map_of_eq_None_iff)
  then show ?thesis by (simp add: Record_get_spread)
qed

text \<open>What the loop over the container's environment leaves under a name.\<close>

lemma env_lookup_alt:
  "env_lookup env k =
     (if filter (\<lambda>e. env_name e = k) env = [] then None
      else env_value (last (filter (\<lambda>e. env_name e = k) env)))"
  by (simp add: env_lookup_def split: list.split)

lemma env_lookup_snoc:
  "env_lookup (env @ [e]) k = (if env_name e = k then env_value e else env_lookup env k)"
  by (simp add: env_lookup_alt)

lemma map_of_currentEnvMap_step:
  "map_of (currentEnvMap_step e m) k =
     (if env_name e = k \<and> k \<noteq> [] \<and> k \<noteq> ''__proto__'' \<and> env_value e \<noteq> None
      then env_value e else map_of m k)"
  by (auto simp add: currentEnvMap_step_def map_of_Record_set split: option.splits)

lemma currentEnvMap_has:
  assumes "k \<noteq> [] \<and> k \<noteq> ''__proto__''" and "env_lookup env k = Some v"
  shows "map_of (fold currentEnvMap_step env []) k = Some v"
  using assms(2)
proof (induction env rule: rev_induct)
  case Nil
  then show ?case by (simp add: env_lookup_def)
next
  case (snoc e env)
  define m where "m = fold currentEnvMap_step env []"
  have step: "fold currentEnvMap_step (env @ [e]) [] = currentEnvMap_step e m"
    by (simp add: m_def)
  show ?case
  proof (cases "env_name e = k")
    case True
    with snoc.prems have "env_value e = Some v"
      by (simp add: env_lookup_snoc)
    with True assms(1) show ?thesis
      by (simp only: step map_of_currentEnvMap_step) simp
  next
    case False
    with snoc.prems have "env_lookup env k = Some v"
      by (simp add: env_lookup_snoc)
    then have "map_of m k = Some v"
      unfolding m_def by (rule snoc.IH)
    with False show ?thesis
      by (simp only: step map_of_currentEnvMap_step) simp
  qed
qed

lemma Record_get_currentEnvMap_of:
  assumes "k \<noteq> [] \<and> k \<noteq> ''__proto__''" and "env_lookup (env_of container) k = Some v"
  shows "Record_get (currentEnvMap_of (container_env container)) k = Some v"
proof (cases "container_env container")
  case None
  with assms(2) show ?thesis by (simp add: env_of_def env_lookup_def)
next
  case (Some env)
  with assms show ?thesis
    by (simp add: env_of_def currentEnvMap_of_def Record_get_def currentEnvMap_has)
qed

lemma filter_key_distinct:
  "distinct (map fst r) \<Longrightarrow> (k, v) \<in> set r \<Longrightarrow> filter (\<lambda>p. fst p = k) r = [(k, v)]"
proof (induction r)
  case Nil
  then show ?case by simp
next
  case (Cons p r)
  show ?case
  proof (cases "p = (k, v)")
    case True
    with Cons.prems have "k \<notin> fst ` set r" by simp
    then have "filter (\<lambda>p. fst p = k) r = []"
      by (auto simp add: filter_empty_conv)
    with True show ?thesis by simp
  next
    case False
    with Cons.prems have mem: "(k, v) \<in> set r" and rest: "distinct (map fst r)" by simp_all
    from mem have "k \<in> fst ` set r" by force
    with Cons.prems have "fst p \<noteq> k" by auto
    with Cons.IH [OF rest mem] show ?thesis by simp
  qed
qed

lemma env_lookup_entries:
  assumes "distinct (map fst r)" and "(k, v) \<in> set r"
  shows "env_lookup (map (\<lambda>(key, value). \<lparr>env_name = key, env_value = Some value\<rparr>) r) k = Some v"
proof -
  have "filter (\<lambda>e. env_name e = k) (map (\<lambda>(key, value). \<lparr>env_name = key, env_value = Some value\<rparr>) r) =
        map (\<lambda>(key, value). \<lparr>env_name = key, env_value = Some value\<rparr>) (filter (\<lambda>p. fst p = k) r)"
    by (induction r) auto
  with filter_key_distinct [OF assms] show ?thesis
    by (simp add: env_lookup_alt)
qed

lemma find_updated_container:
  "find (\<lambda>container. container_name container = name)
     (map (\<lambda>container. if container_name container = name
                        then container\<lparr>container_env := env\<rparr> else container) cs) =
   map_option (\<lambda>container. container\<lparr>container_env := env\<rparr>)
     (find (\<lambda>container. container_name container = name) cs)"
  by (induction cs) auto

lemma replaceNamespacedStatefulSet_unfold:
  "replaceNamespacedStatefulSet name ns body c =
     (let P = ReplaceNamespacedStatefulSet name ns body; c' = log_call P c in
      case faults c P of
        Some e \<Rightarrow> (Inl e, c')
      | None \<Rightarrow>
          (case statefulSets c (ns, name) of
             None \<Rightarrow> (Inl (http_error 404), c')
           | Some _ \<Rightarrow> (Inr body, c'\<lparr>statefulSets := (statefulSets c)((ns, name) \<mapsto> body)\<rparr>)))"
  by (simp add: replaceNamespacedStatefulSet_def)

lemma updateStatefulSetEnvVars_found:
  assumes "fst (getStatefulSet isNF name ns c) = Inr (Some s)"
    and "sts_spec s = Some sp" and "template_spec sp = Some ps"
    and "find (\<lambda>container. container_name container = name) (containers ps) = Some mc"
  shows "updateStatefulSetEnvVars isNF ns name envVars c =
     (if \<forall>(k, v) \<in> set envVars. Record_get (currentEnvMap_of (container_env mc)) k = Some v
      then (Inr True, log_call (ReadNamespacedStatefulSet name ns) c)
      else
        (case replaceNamespacedStatefulSet name ns
                (updatedStatefulSet_of name (currentEnvMap_of (container_env mc)) envVars s sp ps)
                (log_call (ReadNamespacedStatefulSet name ns) c) of
           (Inl e, c2) \<Rightarrow> (Inl e, c2)
         | (Inr _, c2) \<Rightarrow> (Inr True, c2)))"
proof -
  have hasChanges: "list_ex (\<lambda>(key, value). Record_get (currentEnvMap_of (container_env mc)) key \<noteq> Some value)
        (Object_entries envVars) \<longleftrightarrow>
      \<not> (\<forall>(k, v) \<in> set envVars. Record_get (currentEnvMap_of (container_env mc)) k = Some v)"
    by (auto simp add: list_ex_iff Object_entries_def)
  from assms(1) have read: "getStatefulSet isNF name ns c =
      (Inr (Some s), log_call (ReadNamespacedStatefulSet name ns) c)"
    by (rule getStatefulSet_collapse)
  show ?thesis
    unfolding updateStatefulSetEnvVars_def read
    by (simp only: prod.case sum.case option.case assms(2-4) Let_def hasChanges) simp
qed

lemma updateStatefulSetEnvVars_not_applied:
  assumes "fst (getStatefulSet isNF name ns c) = Inr None \<or>
     (\<exists>s sp ps. fst (getStatefulSet isNF name ns c) = Inr (Some s) \<and> sts_spec s = Some sp \<and>
        template_spec sp = Some ps \<and>
        find (\<lambda>container. container_name container = name) (containers ps) = None)"
  shows "updateStatefulSetEnvVars isNF ns name envVars c =
           (Inr False, log_call (ReadNamespacedStatefulSet name ns) c)"
  using assms
  by (auto dest!: getStatefulSet_collapse simp add: updateStatefulSetEnvVars_def)

lemma getStatefulSet_found_iff:
  "fst (getStatefulSet isNF name ns c) = Inr (Some s) \<longleftrightarrow>
     faults c (ReadNamespacedStatefulSet name ns) = None \<and> statefulSets c (ns, name) = Some s"
  by (auto simp add: getStatefulSet_unfold split: option.splits if_splits)

lemma updateStatefulSetEnvVars_true_found:
  assumes "updateStatefulSetEnvVars isNF ns name envVars c = (Inr True, c1)"
  obtains s sp ps mc where "fst (getStatefulSet isNF name ns c) = Inr (Some s)"
    and "sts_spec s = Some sp" and "template_spec sp = Some ps"
    and "find (\<lambda>container. container_name container = name) (containers ps) = Some mc"
proof (cases "fst (getStatefulSet isNF name ns c)")
  case (Inl e)
  from getStatefulSet_collapse [OF this] assms show ?thesis
    by (simp add: updateStatefulSetEnvVars_def)
next
  case (Inr found)
  show ?thesis
  proof (cases found)
    case None
    with Inr have "fst (getStatefulSet isNF name ns c) = Inr None" by simp
    from getStatefulSet_collapse [OF this] assms show ?thesis
      by (simp add: updateStatefulSetEnvVars_def)
  next
    case (Some s)
    with Inr have read: "fst (getStatefulSet isNF name ns c) = Inr (Some s)" by simp
    note collapsed = getStatefulSet_collapse [OF read]
    show ?thesis
    proof (cases "sts_spec s")
      case None
      with collapsed assms show ?thesis
        by (simp add: updateStatefulSetEnvVars_def)
    next
      case (Some sp)
      note spec = Some
      show ?thesis
      proof (cases "template_spec sp")
        case None
        with collapsed spec assms show ?thesis
          by (simp add: updateStatefulSetEnvVars_def)
      next
        case (Some ps)
        note pod = Some
        show ?thesis
        proof (cases "find (\<lambda>container. container_name container = name) (containers ps)")
          case None
          with collapsed spec pod assms show ?thesis
            by (simp add: updateStatefulSetEnvVars_def)
        next
          case (Some mc)
          with read spec pod that show ?thesis by blast
        qed
      qed
    qed
  qed
qed

lemma updated_env_has_requested:
  assumes "distinct (map fst envVars)" and "(k, v) \<in> set envVars"
  shows "env_lookup
           (map (\<lambda>(key, value). \<lparr>env_name = key, env_value = Some value\<rparr>)
              (spread (currentEnvMap_of env) envVars)) k = Some v"
proof -
  have "distinct (map fst (spread (currentEnvMap_of env) envVars))"
    by (simp add: distinct_spread distinct_currentEnvMap_of)
  moreover have "(k, v) \<in> set (spread (currentEnvMap_of env) envVars)"
    using Record_get_spread_requested [OF assms, of "currentEnvMap_of env"]
    by (simp add: Record_get_def map_of_SomeD)
  ultimately show ?thesis by (rule env_lookup_entries)
qed

lemma updateStatefulSetEnvVars_twice:
  assumes nonempty: "\<forall>(k, v) \<in> set envVars. k \<noteq> [] \<and> k \<noteq> ''__proto__''"
    and keys: "distinct (map fst envVars)"
    and first: "updateStatefulSetEnvVars isNF ns name envVars c = (Inr True, c1)"
    and second: "updateStatefulSetEnvVars isNF ns name envVars c1 = (r2, c2)"
  shows "r2 = Inr True \<and> writes c2 = writes c1"
proof -
  let ?R = "ReadNamespacedStatefulSet name ns"
  let ?P = "\<lambda>container. container_name container = name"
  from first obtain s sp ps mc where read: "fst (getStatefulSet isNF name ns c) = Inr (Some s)"
    and spec: "sts_spec s = Some sp" and pod: "template_spec sp = Some ps"
    and main: "find ?P (containers ps) = Some mc"
    by (rule updateStatefulSetEnvVars_true_found)
  let ?cur = "currentEnvMap_of (container_env mc)"
  let ?body = "updatedStatefulSet_of name ?cur envVars s sp ps"
  from read have noFault: "faults c ?R = None" and stored: "statefulSets c (ns, name) = Some s"
    by (simp_all add: getStatefulSet_found_iff)
  note run1 = updateStatefulSetEnvVars_found [OF read spec pod main, of envVars]
  show ?thesis
  proof (cases "\<forall>(k, v) \<in> set envVars. Record_get ?cur k = Some v")
    case True
    with run1 first have c1: "c1 = log_call ?R c" by simp
    have read1: "fst (getStatefulSet isNF name ns c1) = Inr (Some s)"
      by (simp add: getStatefulSet_found_iff c1 noFault stored)
    from updateStatefulSetEnvVars_found [OF read1 spec pod main, of envVars] True second
    show ?thesis by auto
  next
    case False
    with run1 first have replaced:
      "(case replaceNamespacedStatefulSet name ns ?body (log_call ?R c) of
          (Inl e, c2) \<Rightarrow> (Inl e, c2) | (Inr _, c2) \<Rightarrow> (Inr True, c2)) = (Inr True, c1)"
      by simp
    then have c1: "faults c1 = faults c \<and> statefulSets c1 = (statefulSets c)((ns, name) \<mapsto> ?body)"
      by (auto simp add: replaceNamespacedStatefulSet_unfold stored Let_def split: option.splits)
    have read1: "fst (getStatefulSet isNF name ns c1) = Inr (Some ?body)"
      by (simp add: getStatefulSet_found_iff c1 noFault)
    let ?env' = "map (\<lambda>(key, value). \<lparr>env_name = key, env_value = Some value\<rparr>) (spread ?cur envVars)"
    let ?cs' = "map (\<lambda>container. if container_name container = name
                       then container\<lparr>container_env := Some ?env'\<rparr> else container) (containers ps)"
    let ?ps' = "ps\<lparr>containers := ?cs'\<rparr>"
    let ?sp' = "sp\<lparr>template_spec := Some ?ps'\<rparr>"
    have spec': "sts_spec ?body = Some ?sp'"
      by (simp add: updatedStatefulSet_of_def Object_entries_def Let_def)
    have pod': "template_spec ?sp' = Some ?ps'" by simp
    have main': "find ?P (containers ?ps') = Some (mc\<lparr>container_env := Some ?env'\<rparr>)"
      by (simp add: find_updated_container main)
    have current: "\<forall>(k, v) \<in> set envVars.
        Record_get (currentEnvMap_of (container_env (mc\<lparr>container_env := Some ?env'\<rparr>))) k = Some v"
    proof (clarify)
      fix k v assume kv: "(k, v) \<in> set envVars"
      with nonempty have "k \<noteq> [] \<and> k \<noteq> ''__proto__''" by auto
      moreover have "env_lookup (env_of (mc\<lparr>container_env := Some ?env'\<rparr>)) k = Some v"
        using updated_env_has_requested [OF keys kv] by (simp add: env_of_def)
      ultimately show "Record_get (currentEnvMap_of (container_env (mc\<lparr>container_env := Some ?env'\<rparr>))) k = Some v"
        by (rule Record_get_currentEnvMap_of)
    qed
    from updateStatefulSetEnvVars_found [OF read1 spec' pod' main', of envVars] current second
    show ?thesis by auto
  qed
qed

text \<open>
  C7, as amended. Let the requested keys be non-empty names, each once (the key
  \<open>__proto__\<close> is left aside). If the main container's environment already gives every
  requested key the requested value, the update returns true and the only request it
  sends is the read: nothing is replaced. And when an update has returned true, the same
  update run again returns true and sends no write.
\<close>

theorem updateStatefulSetEnvVars_unchanged_no_write:
  assumes "\<forall>(k, v) \<in> set envVars. k \<noteq> [] \<and> k \<noteq> ''__proto__''"
    and "distinct (map fst envVars)"
  shows "(\<forall>s sp ps mc.
            fst (getStatefulSet isK8sNotFound sandboxName namespace c) = Inr (Some s) \<and>
            sts_spec s = Some sp \<and> template_spec sp = Some ps \<and>
            find (\<lambda>container. container_name container = sandboxName) (containers ps) = Some mc \<and>
            (\<forall>(k, v) \<in> set envVars. env_lookup (env_of mc) k = Some v) \<longrightarrow>
            updateStatefulSetEnvVars isK8sNotFound namespace sandboxName envVars c =
              (Inr True, log_call (ReadNamespacedStatefulSet sandboxName namespace) c)) \<and>
         (\<forall>c1 r2 c2.
            updateStatefulSetEnvVars isK8sNotFound namespace sandboxName envVars c = (Inr True, c1) \<and>
            updateStatefulSetEnvVars isK8sNotFound namespace sandboxName envVars c1 = (r2, c2) \<longrightarrow>
            r2 = Inr True \<and> writes c2 = writes c1)"
proof (intro conjI allI impI)
  fix s sp ps mc
  assume h: "fst (getStatefulSet isK8sNotFound sandboxName namespace c) = Inr (Some s) \<and>
      sts_spec s = Some sp \<and> template_spec sp = Some ps \<and>
      find (\<lambda>container. container_name container = sandboxName) (containers ps) = Some mc \<and>
      (\<forall>(k, v) \<in> set envVars. env_lookup (env_of mc) k = Some v)"
  have "\<forall>(k, v) \<in> set envVars. Record_get (currentEnvMap_of (container_env mc)) k = Some v"
  proof (clarify)
    fix k v assume kv: "(k, v) \<in> set envVars"
    with assms(1) have "k \<noteq> [] \<and> k \<noteq> ''__proto__''" by auto
    moreover from h kv have "env_lookup (env_of mc) k = Some v" by auto
    ultimately show "Record_get (currentEnvMap_of (container_env mc)) k = Some v"
      by (rule Record_get_currentEnvMap_of)
  qed
  with h show "updateStatefulSetEnvVars isK8sNotFound namespace sandboxName envVars c =
      (Inr True, log_call (ReadNamespacedStatefulSet sandboxName namespace) c)"
    by (simp add: updateStatefulSetEnvVars_found)
next
  fix c1 r2 c2
  assume h: "updateStatefulSetEnvVars isK8sNotFound namespace sandboxName envVars c = (Inr True, c1) \<and>
      updateStatefulSetEnvVars isK8sNotFound namespace sandboxName envVars c1 = (r2, c2)"
  from updateStatefulSetEnvVars_twice [OF assms, of isK8sNotFound namespace sandboxName c c1 r2 c2] h
  show "r2 = Inr True" and "writes c2 = writes c1" by simp_all
qed

lemma updateStatefulSetEnvVars_example_changed:
  "updateStatefulSetEnvVars is404 ''ns1'' ''acme-x1'' [(''PORT'', ''8080'')]
     (cluster_with (sts_with_env ''acme-x1'' ''ns1'' [\<lparr>env_name = ''PORT'', env_value = Some ''3000''\<rparr>])) =
   (Inr True,
    (log_call (ReplaceNamespacedStatefulSet ''acme-x1'' ''ns1''
         (sts_with_env ''acme-x1'' ''ns1'' [\<lparr>env_name = ''PORT'', env_value = Some ''8080''\<rparr>]))
      (log_call (ReadNamespacedStatefulSet ''acme-x1'' ''ns1'')
        (cluster_with (sts_with_env ''acme-x1'' ''ns1'' [\<lparr>env_name = ''PORT'', env_value = Some ''3000''\<rparr>]))))
    \<lparr>statefulSets := [(''ns1'', ''acme-x1'') \<mapsto>
        sts_with_env ''acme-x1'' ''ns1'' [\<lparr>env_name = ''PORT'', env_value = Some ''8080''\<rparr>]]\<rparr>)"
  by (simp add: updateStatefulSetEnvVars_def getStatefulSet_unfold replaceNamespacedStatefulSet_unfold
      cluster_with_def empty_cluster_def sts_with_env_def currentEnvMap_of_def currentEnvMap_step_def
      Record_get_def Object_entries_def spread_def updatedStatefulSet_of_def Let_def)

theorem updateStatefulSetEnvVars_unchanged_no_write_witness:
  "fst (updateStatefulSetEnvVars is404 ''ns1'' ''acme-x1'' [(''PORT'', ''3000'')]
     (cluster_with (sts_with_env ''acme-x1'' ''ns1'' [\<lparr>env_name = ''PORT'', env_value = Some ''3000''\<rparr>]))) = Inr True \<and>
   writes (snd (updateStatefulSetEnvVars is404 ''ns1'' ''acme-x1'' [(''PORT'', ''3000'')]
     (cluster_with (sts_with_env ''acme-x1'' ''ns1'' [\<lparr>env_name = ''PORT'', env_value = Some ''3000''\<rparr>])))) = [] \<and>
   fst (updateStatefulSetEnvVars is404 ''ns1'' ''acme-x1'' [(''PORT'', ''8080'')]
     (snd (updateStatefulSetEnvVars is404 ''ns1'' ''acme-x1'' [(''PORT'', ''8080'')]
       (cluster_with (sts_with_env ''acme-x1'' ''ns1'' [\<lparr>env_name = ''PORT'', env_value = Some ''3000''\<rparr>]))))) = Inr True \<and>
   writes (snd (updateStatefulSetEnvVars is404 ''ns1'' ''acme-x1'' [(''PORT'', ''8080'')]
     (snd (updateStatefulSetEnvVars is404 ''ns1'' ''acme-x1'' [(''PORT'', ''8080'')]
       (cluster_with (sts_with_env ''acme-x1'' ''ns1'' [\<lparr>env_name = ''PORT'', env_value = Some ''3000''\<rparr>])))))) =
     [ReplaceNamespacedStatefulSet ''acme-x1'' ''ns1''
        (sts_with_env ''acme-x1'' ''ns1'' [\<lparr>env_name = ''PORT'', env_value = Some ''8080''\<rparr>])]"
proof -
  let ?s = "sts_with_env ''acme-x1'' ''ns1'' [\<lparr>env_name = ''PORT'', env_value = Some ''3000''\<rparr>]"
  let ?c = "cluster_with ?s"
  let ?same = "[(''PORT'', ''3000'')]"
  let ?new = "[(''PORT'', ''8080'')]"
  let ?once = "updateStatefulSetEnvVars is404 ''ns1'' ''acme-x1'' ?new ?c"
  let ?twice = "updateStatefulSetEnvVars is404 ''ns1'' ''acme-x1'' ?new (snd ?once)"
  have names: "\<forall>(k, v) \<in> set ?same. k \<noteq> [] \<and> k \<noteq> ''__proto__''" "distinct (map fst ?same)"
    "\<forall>(k, v) \<in> set ?new. k \<noteq> [] \<and> k \<noteq> ''__proto__''" "distinct (map fst ?new)"
    by simp_all
  have found: "fst (getStatefulSet is404 ''acme-x1'' ''ns1'' ?c) = Inr (Some ?s)"
    by (simp add: getStatefulSet_found_iff cluster_with_def empty_cluster_def sts_with_env_def)
  have shape: "sts_spec ?s = Some \<lparr>spec_replicas = Some 1, spec_serviceName = ''acme-x1-service'',
        template_spec = Some \<lparr>containers =
          [\<lparr>container_name = ''acme-x1'', container_env = Some [\<lparr>env_name = ''PORT'', env_value = Some ''3000''\<rparr>]\<rparr>,
           \<lparr>container_name = ''filebrowser'', container_env = Some []\<rparr>]\<rparr>\<rparr>"
    by (simp add: sts_with_env_def)
  have current: "\<forall>(k, v) \<in> set ?same.
      env_lookup (env_of \<lparr>container_name = ''acme-x1'',
        container_env = Some [\<lparr>env_name = ''PORT'', env_value = Some ''3000''\<rparr>]\<rparr>) k = Some v"
    by (simp add: env_lookup_def env_of_def)
  have unchanged: "updateStatefulSetEnvVars is404 ''ns1'' ''acme-x1'' ?same ?c =
      (Inr True, log_call (ReadNamespacedStatefulSet ''acme-x1'' ''ns1'') ?c)"
    using updateStatefulSetEnvVars_unchanged_no_write [OF names(1,2), of is404 "''acme-x1''" "''ns1''" ?c]
      found shape current by simp
  have once: "?once = (Inr True, snd ?once)"
    by (simp add: updateStatefulSetEnvVars_example_changed)
  have twice: "?twice = (fst ?twice, snd ?twice)" by simp
  have again: "fst ?twice = Inr True \<and> writes (snd ?twice) = writes (snd ?once)"
    using updateStatefulSetEnvVars_unchanged_no_write [OF names(3,4), of is404 "''acme-x1''" "''ns1''" ?c]
      once twice by blast
  have sent: "writes (snd ?once) = [ReplaceNamespacedStatefulSet ''acme-x1'' ''ns1''
        (sts_with_env ''acme-x1'' ''ns1'' [\<lparr>env_name = ''PORT'', env_value = Some ''8080''\<rparr>])]"
    by (simp only: updateStatefulSetEnvVars_example_changed)
      (simp add: writes_def cluster_with_def empty_cluster_def)
  have fresh: "writes ?c = []"
    by (simp add: writes_def cluster_with_def empty_cluster_def)
  from unchanged again sent fresh show ?thesis by simp
qed

text \<open>
  C7 as stated fails at the empty key. The main container holds an entry with the empty
  name and the value \<open>x\<close>, and the request asks for exactly that. The loop skips the
  entry, the comparison finds a change, and the update sends a replace.
\<close>

theorem updateStatefulSetEnvVars_empty_key_counterexample:
  "env_lookup
     (env_of \<lparr>container_name = ''acme-x1'',
              container_env = Some [\<lparr>env_name = [], env_value = Some ''x''\<rparr>]\<rparr>) [] = Some ''x'' \<and>
   fst (updateStatefulSetEnvVars is404 ''ns1'' ''acme-x1'' [([], ''x'')]
     (cluster_with (sts_with_env ''acme-x1'' ''ns1'' [\<lparr>env_name = [], env_value = Some ''x''\<rparr>]))) = Inr True \<and>
   writes (snd (updateStatefulSetEnvVars is404 ''ns1'' ''acme-x1'' [([], ''x'')]
     (cluster_with (sts_with_env ''acme-x1'' ''ns1'' [\<lparr>env_name = [], env_value = Some ''x''\<rparr>])))) =
     [ReplaceNamespacedStatefulSet ''acme-x1'' ''ns1''
        (sts_with_env ''acme-x1'' ''ns1'' [\<lparr>env_name = [], env_value = Some ''x''\<rparr>])]"
  by (simp add: updateStatefulSetEnvVars_def getStatefulSet_unfold replaceNamespacedStatefulSet_unfold
      cluster_with_def empty_cluster_def sts_with_env_def currentEnvMap_of_def currentEnvMap_step_def
      Record_get_def Object_entries_def spread_def updatedStatefulSet_of_def writes_def Let_def
      env_lookup_def env_of_def)

text \<open>
  C10. When the StatefulSet is read and its pod template has no container named after
  the sandbox, the update returns false and the only request it sends is the read; this
  is also what it does when the StatefulSet is absent.
\<close>

theorem updateStatefulSetEnvVars_no_main_container:
  "(\<forall>s sp ps.
      fst (getStatefulSet isK8sNotFound sandboxName namespace c) = Inr (Some s) \<and>
      sts_spec s = Some sp \<and> template_spec sp = Some ps \<and>
      (\<forall>container \<in> set (containers ps). container_name container \<noteq> sandboxName) \<longrightarrow>
      updateStatefulSetEnvVars isK8sNotFound namespace sandboxName envVars c =
        (Inr False, log_call (ReadNamespacedStatefulSet sandboxName namespace) c)) \<and>
   (fst (getStatefulSet isK8sNotFound sandboxName namespace c) = Inr None \<longrightarrow>
      updateStatefulSetEnvVars isK8sNotFound namespace sandboxName envVars c =
        (Inr False, log_call (ReadNamespacedStatefulSet sandboxName namespace) c))"
proof (intro conjI allI impI)
  fix s sp ps
  assume h: "fst (getStatefulSet isK8sNotFound sandboxName namespace c) = Inr (Some s) \<and>
      sts_spec s = Some sp \<and> template_spec sp = Some ps \<and>
      (\<forall>container \<in> set (containers ps). container_name container \<noteq> sandboxName)"
  then have "find (\<lambda>container. container_name container = sandboxName) (containers ps) = None"
    by (simp add: find_None_iff)
  with h show "updateStatefulSetEnvVars isK8sNotFound namespace sandboxName envVars c =
      (Inr False, log_call (ReadNamespacedStatefulSet sandboxName namespace) c)"
    by (intro updateStatefulSetEnvVars_not_applied) blast
next
  assume "fst (getStatefulSet isK8sNotFound sandboxName namespace c) = Inr None"
  then show "updateStatefulSetEnvVars isK8sNotFound namespace sandboxName envVars c =
      (Inr False, log_call (ReadNamespacedStatefulSet sandboxName namespace) c)"
    by (intro updateStatefulSetEnvVars_not_applied) blast
qed

theorem updateStatefulSetEnvVars_no_main_container_witness:
  "fst (updateStatefulSetEnvVars is404 ''ns1'' ''acme-x1'' [(''PORT'', ''8080'')]
     (cluster_with ((sts_with_env ''acme-x1'' ''ns1'' [])\<lparr>sts_spec :=
        Some \<lparr>spec_replicas = Some 1, spec_serviceName = ''acme-x1-service'',
              template_spec = Some \<lparr>containers = [\<lparr>container_name = ''filebrowser'', container_env = Some []\<rparr>]\<rparr>\<rparr>\<rparr>))) = Inr False \<and>
   writes (snd (updateStatefulSetEnvVars is404 ''ns1'' ''acme-x1'' [(''PORT'', ''8080'')]
     (cluster_with ((sts_with_env ''acme-x1'' ''ns1'' [])\<lparr>sts_spec :=
        Some \<lparr>spec_replicas = Some 1, spec_serviceName = ''acme-x1-service'',
              template_spec = Some \<lparr>containers = [\<lparr>container_name = ''filebrowser'', container_env = Some []\<rparr>]\<rparr>\<rparr>\<rparr>)))) = [] \<and>
   fst (updateStatefulSetEnvVars is404 ''ns1'' ''acme-x1'' [(''PORT'', ''8080'')] empty_cluster) = Inr False"
proof -
  let ?ps = "\<lparr>containers = [\<lparr>container_name = ''filebrowser'', container_env = Some []\<rparr>]\<rparr>"
  let ?sp = "\<lparr>spec_replicas = Some 1, spec_serviceName = ''acme-x1-service'', template_spec = Some ?ps\<rparr>"
  let ?s = "(sts_with_env ''acme-x1'' ''ns1'' [])\<lparr>sts_spec := Some ?sp\<rparr>"
  let ?c = "cluster_with ?s"
  have found: "fst (getStatefulSet is404 ''acme-x1'' ''ns1'' ?c) = Inr (Some ?s)"
    by (simp add: getStatefulSet_found_iff cluster_with_def empty_cluster_def sts_with_env_def)
  have shape: "sts_spec ?s = Some ?sp" "template_spec ?sp = Some ?ps"
    "\<forall>container \<in> set (containers ?ps). container_name container \<noteq> ''acme-x1''"
    by simp_all
  have absent: "fst (getStatefulSet is404 ''acme-x1'' ''ns1'' empty_cluster) = Inr None"
    by (simp add: getStatefulSet_unfold empty_cluster_def is404_def http_error_def)
  have fresh: "writes ?c = []"
    by (simp add: writes_def cluster_with_def empty_cluster_def)
  have "updateStatefulSetEnvVars is404 ''ns1'' ''acme-x1'' [(''PORT'', ''8080'')] ?c =
      (Inr False, log_call (ReadNamespacedStatefulSet ''acme-x1'' ''ns1'') ?c)"
    using updateStatefulSetEnvVars_no_main_container
      [of is404 "''acme-x1''" "''ns1''" ?c "[(''PORT'', ''8080'')]"] found shape
    by blast
  moreover have "updateStatefulSetEnvVars is404 ''ns1'' ''acme-x1'' [(''PORT'', ''8080'')] empty_cluster =
      (Inr False, log_call (ReadNamespacedStatefulSet ''acme-x1'' ''ns1'') empty_cluster)"
    using updateStatefulSetEnvVars_no_main_container
      [of is404 "''acme-x1''" "''ns1''" empty_cluster "[(''PORT'', ''8080'')]"] absent
    by blast
  ultimately show ?thesis using fresh by simp
qed

text \<open>
  An entry of the main container with a literal value and a non-empty name other than
  \<open>__proto__\<close>, whose name the request does not mention, is in the environment the
  update builds.
\<close>

lemma updated_env_keeps_literal:
  assumes "k \<noteq> [] \<and> k \<noteq> ''__proto__''" and "k \<notin> fst ` set envVars"
    and "env_lookup (env_of mc) k = Some v"
  shows "env_lookup
           (map (\<lambda>(key, value). \<lparr>env_name = key, env_value = Some value\<rparr>)
              (spread (currentEnvMap_of (container_env mc)) envVars)) k = Some v"
proof -
  have "Record_get (currentEnvMap_of (container_env mc)) k = Some v"
    using assms(1,3) by (rule Record_get_currentEnvMap_of)
  with assms(2) have "Record_get (spread (currentEnvMap_of (container_env mc)) envVars) k = Some v"
    by (simp add: Record_get_spread_kept)
  then have "(k, v) \<in> set (spread (currentEnvMap_of (container_env mc)) envVars)"
    by (simp add: Record_get_def map_of_SomeD)
  moreover have "distinct (map fst (spread (currentEnvMap_of (container_env mc)) envVars))"
    by (simp add: distinct_spread distinct_currentEnvMap_of)
  ultimately show ?thesis by (intro env_lookup_entries)
qed

text \<open>
  C6, evaluated. The main container holds \<open>DATABASE_URL\<close>, whose value comes from a
  reference (no literal value), and \<open>PORT\<close>. The request changes \<open>PORT\<close> only. The
  StatefulSet the update submits has \<open>PORT\<close> alone: \<open>DATABASE_URL\<close> is gone.
\<close>

theorem updateStatefulSetEnvVars_drops_entry_without_value:
  "fst (updateStatefulSetEnvVars is404 ''ns1'' ''acme-x1'' [(''PORT'', ''8080'')]
     (cluster_with (sts_with_env ''acme-x1'' ''ns1''
        [\<lparr>env_name = ''DATABASE_URL'', env_value = None\<rparr>,
         \<lparr>env_name = ''PORT'', env_value = Some ''3000''\<rparr>]))) = Inr True \<and>
   writes (snd (updateStatefulSetEnvVars is404 ''ns1'' ''acme-x1'' [(''PORT'', ''8080'')]
     (cluster_with (sts_with_env ''acme-x1'' ''ns1''
        [\<lparr>env_name = ''DATABASE_URL'', env_value = None\<rparr>,
         \<lparr>env_name = ''PORT'', env_value = Some ''3000''\<rparr>])))) =
     [ReplaceNamespacedStatefulSet ''acme-x1'' ''ns1''
        (sts_with_env ''acme-x1'' ''ns1'' [\<lparr>env_name = ''PORT'', env_value = Some ''8080''\<rparr>])]"
  by (simp add: updateStatefulSetEnvVars_def getStatefulSet_unfold replaceNamespacedStatefulSet_unfold
      cluster_with_def empty_cluster_def sts_with_env_def currentEnvMap_of_def currentEnvMap_step_def
      Record_get_def Object_entries_def spread_def updatedStatefulSet_of_def writes_def Let_def)


section \<open>Delete: theorems\<close>

lemma fst_deleteNamespacedStatefulSet:
  "fst (deleteNamespacedStatefulSet n ns c) =
     (case faults c (DeleteNamespacedStatefulSet n ns) of
        Some e \<Rightarrow> Inl e
      | None \<Rightarrow> (case statefulSets c (ns, n) of None \<Rightarrow> Inl (http_error 404) | Some _ \<Rightarrow> Inr ()))"
  by (simp add: deleteNamespacedStatefulSet_def Let_def split: option.split)

lemma deleteNamespacedStatefulSet_simps [simp]:
  "faults (snd (deleteNamespacedStatefulSet n ns c)) = faults c"
  "services (snd (deleteNamespacedStatefulSet n ns c)) = services c"
  "ingresses (snd (deleteNamespacedStatefulSet n ns c)) = ingresses c"
  "persistentVolumeClaims (snd (deleteNamespacedStatefulSet n ns c)) = persistentVolumeClaims c"
  "calls (snd (deleteNamespacedStatefulSet n ns c)) = calls c @ [DeleteNamespacedStatefulSet n ns]"
  by (simp_all add: deleteNamespacedStatefulSet_def Let_def split: option.split)

lemma fst_deleteNamespacedService:
  "fst (deleteNamespacedService n ns c) =
     (case faults c (DeleteNamespacedService n ns) of
        Some e \<Rightarrow> Inl e
      | None \<Rightarrow> (case services c (ns, n) of None \<Rightarrow> Inl (http_error 404) | Some _ \<Rightarrow> Inr ()))"
  by (simp add: deleteNamespacedService_def Let_def split: option.split)

lemma deleteNamespacedService_simps [simp]:
  "faults (snd (deleteNamespacedService n ns c)) = faults c"
  "statefulSets (snd (deleteNamespacedService n ns c)) = statefulSets c"
  "ingresses (snd (deleteNamespacedService n ns c)) = ingresses c"
  "persistentVolumeClaims (snd (deleteNamespacedService n ns c)) = persistentVolumeClaims c"
  "calls (snd (deleteNamespacedService n ns c)) = calls c @ [DeleteNamespacedService n ns]"
  by (simp_all add: deleteNamespacedService_def Let_def split: option.split)

lemma fst_deleteNamespacedIngress:
  "fst (deleteNamespacedIngress n ns c) =
     (case faults c (DeleteNamespacedIngress n ns) of
        Some e \<Rightarrow> Inl e
      | None \<Rightarrow> (case ingresses c (ns, n) of None \<Rightarrow> Inl (http_error 404) | Some _ \<Rightarrow> Inr ()))"
  by (simp add: deleteNamespacedIngress_def Let_def split: option.split)

lemma deleteNamespacedIngress_simps [simp]:
  "faults (snd (deleteNamespacedIngress n ns c)) = faults c"
  "statefulSets (snd (deleteNamespacedIngress n ns c)) = statefulSets c"
  "services (snd (deleteNamespacedIngress n ns c)) = services c"
  "persistentVolumeClaims (snd (deleteNamespacedIngress n ns c)) = persistentVolumeClaims c"
  "calls (snd (deleteNamespacedIngress n ns c)) = calls c @ [DeleteNamespacedIngress n ns]"
  "n' \<noteq> n \<Longrightarrow> ingresses (snd (deleteNamespacedIngress n ns c)) (ns', n') = ingresses c (ns', n')"
  by (simp_all add: deleteNamespacedIngress_def Let_def split: option.split)

lemma deleteNamespacedPersistentVolumeClaim_simps [simp]:
  "faults (snd (deleteNamespacedPersistentVolumeClaim n ns c)) = faults c"
  "calls (snd (deleteNamespacedPersistentVolumeClaim n ns c)) =
     calls c @ [DeleteNamespacedPersistentVolumeClaim n ns]"
  by (simp_all add: deleteNamespacedPersistentVolumeClaim_def Let_def split: option.split)

lemma deleteStatefulSet_unfold:
  "deleteStatefulSet isNF n ns c =
     (tolerate isNF (fst (deleteNamespacedStatefulSet n ns c)), snd (deleteNamespacedStatefulSet n ns c))"
  by (cases "deleteNamespacedStatefulSet n ns c")
    (auto simp add: deleteStatefulSet_def tolerate_def passes_def split: sum.splits)

lemma deleteService_unfold:
  "deleteService isNF n ns c =
     (tolerate isNF (fst (deleteNamespacedService (n @ ''-service'') ns c)),
      snd (deleteNamespacedService (n @ ''-service'') ns c))"
  by (cases "deleteNamespacedService (n @ ''-service'') ns c")
    (auto simp add: deleteService_def getServiceName_def tolerate_def passes_def split: sum.splits)

lemma deleteIngress_unfold:
  "deleteIngress isNF n ns c =
     (tolerate isNF (fst (deleteNamespacedIngress n ns c)), snd (deleteNamespacedIngress n ns c))"
  by (cases "deleteNamespacedIngress n ns c")
    (auto simp add: deleteIngress_def tolerate_def passes_def split: sum.splits)

lemma deletePVCs_unfold:
  "deletePVCs isNF n ns c =
     (Inr (), snd (deleteNamespacedPersistentVolumeClaim (''vn-homevn-fulling-'' @ n @ ''-0'') ns c))"
  by (cases "deleteNamespacedPersistentVolumeClaim (''vn-homevn-fulling-'' @ n @ ''-0'') ns c")
    (auto simp add: deletePVCs_def simp del: deleteNamespacedPersistentVolumeClaim_simps
      split: sum.splits)

lemma set_Promise_all:
  "set (Promise_all ps) = (if \<exists>p \<in> set ps. isl p then {p \<in> set ps. isl p} else {Inr ()})"
  by (auto simp add: Promise_all_def list_ex_iff)

lemma Promise_all_fulfilled: "\<forall>p \<in> set ps. \<not> isl p \<Longrightarrow> Promise_all ps = [Inr ()]"
  by (simp add: Promise_all_def list_ex_iff)

lemma Promise_all_nonempty: "Promise_all ps \<noteq> []"
  by (auto simp add: Promise_all_def list_ex_iff filter_empty_conv)

lemma isl_tolerate: "isl (tolerate isNF a) \<longleftrightarrow> \<not> passes isNF a"
  by (cases a) (auto simp add: tolerate_def passes_def)

lemma tolerate_rejected: "tolerate isNF a = Inl e \<longleftrightarrow> a = Inl e \<and> \<not> isNF e"
  by (cases a) (auto simp add: tolerate_def passes_def)

lemma fst_delete_after [simp]:
  "fst (deleteNamespacedService m ns (snd (deleteNamespacedStatefulSet n ns c))) =
     fst (deleteNamespacedService m ns c)"
  "fst (deleteNamespacedIngress m ns (snd (deleteNamespacedStatefulSet n ns c))) =
     fst (deleteNamespacedIngress m ns c)"
  "fst (deleteNamespacedIngress m ns (snd (deleteNamespacedService n ns c))) =
     fst (deleteNamespacedIngress m ns c)"
  "m \<noteq> n \<Longrightarrow> fst (deleteNamespacedIngress m ns (snd (deleteNamespacedIngress n ns c))) =
     fst (deleteNamespacedIngress m ns c)"
  by (simp_all add: fst_deleteNamespacedService fst_deleteNamespacedIngress cong: option.case_cong)

lemma deleteSandbox_settlements:
  "fst (deleteSandbox isNF ns n c) =
     concat (map (\<lambda>p3. Promise_all
                    [tolerate isNF (fst (deleteNamespacedStatefulSet n ns c)),
                     tolerate isNF (fst (deleteNamespacedService (n @ ''-service'') ns c)),
                     p3, Inr ()])
       (Promise_all
          [tolerate isNF (fst (deleteNamespacedIngress (n @ ''-app-ingress'') ns c)),
           tolerate isNF (fst (deleteNamespacedIngress (n @ ''-ttyd-ingress'') ns c)),
           tolerate isNF (fst (deleteNamespacedIngress (n @ ''-filebrowser-ingress'') ns c))]))"
  by (simp add: deleteSandbox_def deleteIngresses_def deleteStatefulSet_unfold deleteService_unfold
      deleteIngress_unfold deletePVCs_unfold getAppIngressName_def getTtydIngressName_def
      getFileBrowserIngressName_def Let_def)

lemma deleteSandbox_calls:
  "calls (snd (deleteSandbox isNF ns n c)) =
     calls c @
       [DeleteNamespacedStatefulSet n ns,
        DeleteNamespacedService (n @ ''-service'') ns,
        DeleteNamespacedIngress (n @ ''-app-ingress'') ns,
        DeleteNamespacedIngress (n @ ''-ttyd-ingress'') ns,
        DeleteNamespacedIngress (n @ ''-filebrowser-ingress'') ns,
        DeleteNamespacedPersistentVolumeClaim (''vn-homevn-fulling-'' @ n @ ''-0'') ns]"
  by (simp add: deleteSandbox_def deleteIngresses_def deleteStatefulSet_unfold deleteService_unfold
      deleteIngress_unfold deletePVCs_unfold getAppIngressName_def getTtydIngressName_def
      getFileBrowserIngressName_def Let_def)

lemma deleteSandbox_all_pass:
  assumes "\<forall>a \<in> set (resource_delete_answers n ns c). passes isNF a"
  shows "fst (deleteSandbox isNF ns n c) = [Inr ()]"
proof -
  from assms have
    "\<not> isl (tolerate isNF (fst (deleteNamespacedStatefulSet n ns c)))"
    "\<not> isl (tolerate isNF (fst (deleteNamespacedService (n @ ''-service'') ns c)))"
    "\<not> isl (tolerate isNF (fst (deleteNamespacedIngress (n @ ''-app-ingress'') ns c)))"
    "\<not> isl (tolerate isNF (fst (deleteNamespacedIngress (n @ ''-ttyd-ingress'') ns c)))"
    "\<not> isl (tolerate isNF (fst (deleteNamespacedIngress (n @ ''-filebrowser-ingress'') ns c)))"
    unfolding isl_tolerate resource_delete_answers_def by simp_all
  then show ?thesis
    unfolding deleteSandbox_settlements by (simp add: Promise_all_def)
qed

lemma deleteSandbox_some_fails:
  assumes "\<not> (\<forall>a \<in> set (resource_delete_answers n ns c). passes isNF a)"
    and "r \<in> set (fst (deleteSandbox isNF ns n c))"
  shows "\<exists>e. r = Inl e \<and> \<not> isNF e \<and> Inl e \<in> set (resource_delete_answers n ns c)"
proof -
  let ?t1 = "tolerate isNF (fst (deleteNamespacedStatefulSet n ns c))"
  let ?t2 = "tolerate isNF (fst (deleteNamespacedService (n @ ''-service'') ns c))"
  let ?t3 = "tolerate isNF (fst (deleteNamespacedIngress (n @ ''-app-ingress'') ns c))"
  let ?t4 = "tolerate isNF (fst (deleteNamespacedIngress (n @ ''-ttyd-ingress'') ns c))"
  let ?t5 = "tolerate isNF (fst (deleteNamespacedIngress (n @ ''-filebrowser-ingress'') ns c))"
  from assms(1) have some: "isl ?t1 \<or> isl ?t2 \<or> isl ?t3 \<or> isl ?t4 \<or> isl ?t5"
    unfolding isl_tolerate resource_delete_answers_def by simp
  from assms(2) obtain p3 where p3: "p3 \<in> set (Promise_all [?t3, ?t4, ?t5])"
    and r: "r \<in> set (Promise_all [?t1, ?t2, p3, Inr ()])"
    unfolding deleteSandbox_settlements by auto
  from p3 have inner: "(isl ?t3 \<or> isl ?t4 \<or> isl ?t5) \<and> isl p3 \<and> p3 \<in> {?t3, ?t4, ?t5} \<or>
      \<not> (isl ?t3 \<or> isl ?t4 \<or> isl ?t5) \<and> p3 = Inr ()"
    unfolding set_Promise_all by (auto split: if_splits)
  with some have rejected: "isl ?t1 \<or> isl ?t2 \<or> isl p3" by auto
  with r have "isl r \<and> r \<in> {?t1, ?t2, p3}"
    unfolding set_Promise_all by (auto split: if_splits)
  with inner have "isl r \<and> r \<in> {?t1, ?t2, ?t3, ?t4, ?t5}" by auto
  then obtain e where e: "r = Inl e" and mem: "Inl e \<in> {?t1, ?t2, ?t3, ?t4, ?t5}"
    by (cases r) auto
  have "{?t1, ?t2, ?t3, ?t4, ?t5} = tolerate isNF ` set (resource_delete_answers n ns c)"
    unfolding resource_delete_answers_def by (simp only: list.set image_insert image_empty)
  with mem have "Inl e \<in> tolerate isNF ` set (resource_delete_answers n ns c)"
    by (simp only:)
  then obtain a where a: "a \<in> set (resource_delete_answers n ns c)"
    and t: "tolerate isNF a = Inl e"
    by (auto simp only: image_iff)
  from t have "a = Inl e \<and> \<not> isNF e"
    by (rule iffD1 [OF tolerate_rejected])
  with a e show ?thesis by blast
qed

text \<open>
  C3. Deleting a sandbox sends all six deletion requests (StatefulSet, service, the
  three ingresses, storage claim), whatever the answers to the others are. It always
  settles. If every answer to the five deletions other than the storage claim's is a
  success or a not-found, the deletion is fulfilled, whatever the answer to the
  storage-claim deletion is. Otherwise it is rejected, and the reason is a failure that
  is not a not-found, answered to one of these five deletions.
\<close>

theorem deleteSandbox_tolerant:
  "calls (snd (deleteSandbox isK8sNotFound namespace sandboxName c)) =
     calls c @
       [DeleteNamespacedStatefulSet sandboxName namespace,
        DeleteNamespacedService (sandboxName @ ''-service'') namespace,
        DeleteNamespacedIngress (sandboxName @ ''-app-ingress'') namespace,
        DeleteNamespacedIngress (sandboxName @ ''-ttyd-ingress'') namespace,
        DeleteNamespacedIngress (sandboxName @ ''-filebrowser-ingress'') namespace,
        DeleteNamespacedPersistentVolumeClaim (''vn-homevn-fulling-'' @ sandboxName @ ''-0'') namespace] \<and>
   fst (deleteSandbox isK8sNotFound namespace sandboxName c) \<noteq> [] \<and>
   ((\<forall>a \<in> set (resource_delete_answers sandboxName namespace c). passes isK8sNotFound a) \<longrightarrow>
      fst (deleteSandbox isK8sNotFound namespace sandboxName c) = [Inr ()]) \<and>
   (\<not> (\<forall>a \<in> set (resource_delete_answers sandboxName namespace c). passes isK8sNotFound a) \<longrightarrow>
      (\<forall>r \<in> set (fst (deleteSandbox isK8sNotFound namespace sandboxName c)).
         \<exists>e. r = Inl e \<and> \<not> isK8sNotFound e \<and>
             Inl e \<in> set (resource_delete_answers sandboxName namespace c)))"
proof -
  have settles: "fst (deleteSandbox isK8sNotFound namespace sandboxName c) \<noteq> []"
    unfolding deleteSandbox_settlements using Promise_all_nonempty
    by (cases "Promise_all
          [tolerate isK8sNotFound (fst (deleteNamespacedIngress (sandboxName @ ''-app-ingress'') namespace c)),
           tolerate isK8sNotFound (fst (deleteNamespacedIngress (sandboxName @ ''-ttyd-ingress'') namespace c)),
           tolerate isK8sNotFound (fst (deleteNamespacedIngress (sandboxName @ ''-filebrowser-ingress'') namespace c))]")
      simp_all
  show ?thesis
    using settles deleteSandbox_calls [of isK8sNotFound namespace sandboxName c]
      deleteSandbox_all_pass [of sandboxName namespace c isK8sNotFound]
      deleteSandbox_some_fails [of sandboxName namespace c isK8sNotFound]
    by blast
qed

theorem deleteSandbox_tolerant_witness:
  "fst (deleteSandbox is404 ''ns1'' ''acme-x1''
     (empty_cluster\<lparr>faults := (\<lambda>call.
        if call = DeleteNamespacedPersistentVolumeClaim ''vn-homevn-fulling-acme-x1-0'' ''ns1''
        then Some (http_error 500) else None)\<rparr>)) = [Inr ()] \<and>
   fst (deleteSandbox is404 ''ns1'' ''acme-x1''
     (empty_cluster\<lparr>faults := (\<lambda>call.
        if call = DeleteNamespacedService ''acme-x1-service'' ''ns1''
        then Some (http_error 500) else None)\<rparr>)) = [Inl (http_error 500)] \<and>
   calls (snd (deleteSandbox is404 ''ns1'' ''acme-x1''
     (empty_cluster\<lparr>faults := (\<lambda>call.
        if call = DeleteNamespacedService ''acme-x1-service'' ''ns1''
        then Some (http_error 500) else None)\<rparr>))) =
     [DeleteNamespacedStatefulSet ''acme-x1'' ''ns1'',
      DeleteNamespacedService ''acme-x1-service'' ''ns1'',
      DeleteNamespacedIngress ''acme-x1-app-ingress'' ''ns1'',
      DeleteNamespacedIngress ''acme-x1-ttyd-ingress'' ''ns1'',
      DeleteNamespacedIngress ''acme-x1-filebrowser-ingress'' ''ns1'',
      DeleteNamespacedPersistentVolumeClaim ''vn-homevn-fulling-acme-x1-0'' ''ns1'']"
proof -
  let ?claim = "empty_cluster\<lparr>faults := (\<lambda>call.
        if call = DeleteNamespacedPersistentVolumeClaim ''vn-homevn-fulling-acme-x1-0'' ''ns1''
        then Some (http_error 500) else None)\<rparr>"
  let ?service = "empty_cluster\<lparr>faults := (\<lambda>call.
        if call = DeleteNamespacedService ''acme-x1-service'' ''ns1''
        then Some (http_error 500) else None)\<rparr>"
  have gone: "is404 (http_error 404)" and broken: "\<not> is404 (http_error 500)"
    by (simp_all add: is404_def http_error_def)
  have answers1: "resource_delete_answers ''acme-x1'' ''ns1'' ?claim =
      [Inl (http_error 404), Inl (http_error 404), Inl (http_error 404), Inl (http_error 404),
       Inl (http_error 404)]"
    by (simp add: resource_delete_answers_def empty_cluster_def fst_deleteNamespacedStatefulSet
        fst_deleteNamespacedService fst_deleteNamespacedIngress)
  have answers2: "resource_delete_answers ''acme-x1'' ''ns1'' ?service =
      [Inl (http_error 404), Inl (http_error 500), Inl (http_error 404), Inl (http_error 404),
       Inl (http_error 404)]"
    by (simp add: resource_delete_answers_def empty_cluster_def fst_deleteNamespacedStatefulSet
        fst_deleteNamespacedService fst_deleteNamespacedIngress)
  have pass1: "\<forall>a \<in> set (resource_delete_answers ''acme-x1'' ''ns1'' ?claim). passes is404 a"
    by (simp add: answers1 passes_def gone)
  have fail2: "\<not> (\<forall>a \<in> set (resource_delete_answers ''acme-x1'' ''ns1'' ?service). passes is404 a)"
    by (simp add: answers2 passes_def gone broken)
  note first = deleteSandbox_tolerant [of is404 "''ns1''" "''acme-x1''" ?claim]
  note second = deleteSandbox_tolerant [of is404 "''ns1''" "''acme-x1''" ?service]
  from first pass1 have fulfilled: "fst (deleteSandbox is404 ''ns1'' ''acme-x1'' ?claim) = [Inr ()]"
    by blast
  from second fail2 have each: "\<forall>r \<in> set (fst (deleteSandbox is404 ''ns1'' ''acme-x1'' ?service)).
      r = Inl (http_error 500)"
    by (auto simp add: answers2 gone)
  have one: "length (fst (deleteSandbox is404 ''ns1'' ''acme-x1'' ?service)) = 1"
    by (simp add: deleteSandbox_settlements empty_cluster_def Promise_all_def tolerate_def
        passes_def gone broken fst_deleteNamespacedStatefulSet fst_deleteNamespacedService
        fst_deleteNamespacedIngress)
  from each one have rejected:
    "fst (deleteSandbox is404 ''ns1'' ''acme-x1'' ?service) = [Inl (http_error 500)]"
    by (cases "fst (deleteSandbox is404 ''ns1'' ''acme-x1'' ?service)") auto
  have sent: "calls ?service = []"
    by (simp add: empty_cluster_def)
  from second sent have log: "calls (snd (deleteSandbox is404 ''ns1'' ''acme-x1'' ?service)) =
     [DeleteNamespacedStatefulSet ''acme-x1'' ''ns1'',
      DeleteNamespacedService ''acme-x1-service'' ''ns1'',
      DeleteNamespacedIngress ''acme-x1-app-ingress'' ''ns1'',
      DeleteNamespacedIngress ''acme-x1-ttyd-ingress'' ''ns1'',
      DeleteNamespacedIngress ''acme-x1-filebrowser-ingress'' ''ns1'',
      DeleteNamespacedPersistentVolumeClaim ''vn-homevn-fulling-acme-x1-0'' ''ns1'']"
    by simp
  from fulfilled rejected log show ?thesis by simp
qed


section \<open>Create: theorems\<close>

lemma createStatefulSet_no_faults:
  assumes "\<forall>call. faults c call = None" and "isNF (http_error 404)"
  shows "fst (createStatefulSet isNF n k ns env c) = Inr () \<and>
         (\<forall>call. faults (snd (createStatefulSet isNF n k ns env c)) call = None)"
  using assms
  by (cases "statefulSets c (ns, n)")
    (simp_all add: createStatefulSet_def getStatefulSet_unfold createNamespacedStatefulSet_def
      statefulSet_manifest_def Let_def)

lemma createService_no_faults:
  assumes "\<forall>call. faults c call = None"
  shows "fst (createService n k ns c) = Inr () \<and>
         (\<forall>call. faults (snd (createService n k ns c)) call = None)"
  using assms
  by (cases "services c (ns, n @ ''-service'')")
    (simp_all add: createService_def readNamespacedService_def createNamespacedService_def
      service_manifest_def getServiceName_def Let_def)

lemma createIngressIfNotExists_no_faults:
  assumes "\<forall>call. faults c call = None" and "isNF (http_error 404)" and "ingress_name body = n"
  shows "fst (createIngressIfNotExists isNF n ns body c) = Inr () \<and>
         (\<forall>call. faults (snd (createIngressIfNotExists isNF n ns body c)) call = None)"
  using assms
  by (cases "ingresses c (ns, n)")
    (simp_all add: createIngressIfNotExists_def readNamespacedIngress_def createNamespacedIngress_def
      Let_def)

lemma createIngresses_no_faults:
  assumes "\<forall>call. faults c call = None" and "isNF (http_error 404)"
  shows "fst (createIngresses isNF n k ns svc domain c) = [Inr ()]"
proof -
  let ?app = "createAppIngress n k ns svc domain"
  let ?ttyd = "createTtydIngress n k ns svc domain"
  let ?fb = "createFileBrowserIngress n k ns svc domain"
  let ?r1 = "createIngressIfNotExists isNF (getAppIngressName n) ns ?app c"
  let ?r2 = "createIngressIfNotExists isNF (getTtydIngressName n) ns ?ttyd (snd ?r1)"
  let ?r3 = "createIngressIfNotExists isNF (getFileBrowserIngressName n) ns ?fb (snd ?r2)"
  have names: "ingress_name ?app = getAppIngressName n" "ingress_name ?ttyd = getTtydIngressName n"
    "ingress_name ?fb = getFileBrowserIngressName n"
    by (simp_all add: createAppIngress_def createTtydIngress_def createFileBrowserIngress_def
        ingress_manifest_def Let_def)
  note one = createIngressIfNotExists_no_faults
    [where isNF = isNF and c = c and ns = ns, OF assms(1) assms(2) names(1)]
  from one have f1: "\<forall>call. faults (snd ?r1) call = None" by blast
  note two = createIngressIfNotExists_no_faults
    [where isNF = isNF and c = "snd ?r1" and ns = ns, OF f1 assms(2) names(2)]
  from two have f2: "\<forall>call. faults (snd ?r2) call = None" by blast
  note three = createIngressIfNotExists_no_faults
    [where isNF = isNF and c = "snd ?r2" and ns = ns, OF f2 assms(2) names(3)]
  from one two three have "fst ?r1 = Inr ()" "fst ?r2 = Inr ()" "fst ?r3 = Inr ()"
    by blast+
  then show ?thesis
    by (simp add: createIngresses_def Let_def case_prod_beta Promise_all_def)
qed

lemma createSandbox_no_faults:
  assumes "\<forall>call. faults c call = None" and "isNF (http_error 404)"
  shows "fst (createSandbox toK8s isNF project ns domain n envVars c) =
           [Inr (sandboxInfo_of n (getServiceName n) domain envVars)]"
proof -
  let ?env = "Record_set ''PROJECT_NAME'' project (spread [] envVars)"
  let ?r1 = "createStatefulSet isNF n (toK8s project) ns ?env c"
  let ?r2 = "createService n (toK8s project) ns (snd ?r1)"
  let ?r3 = "createIngresses isNF n (toK8s project) ns (getServiceName n) domain (snd ?r2)"
  note one = createStatefulSet_no_faults
    [where isNF = isNF and c = c and n = n and k = "toK8s project" and ns = ns and env = ?env,
      OF assms]
  from one have f1: "\<forall>call. faults (snd ?r1) call = None" by blast
  note two = createService_no_faults [OF f1, of n "toK8s project" ns]
  from two have f2: "\<forall>call. faults (snd ?r2) call = None" by blast
  have three: "fst ?r3 = [Inr ()]"
    by (rule createIngresses_no_faults [where isNF = isNF and c = "snd ?r2", OF f2 assms(2)])
  from one have s1: "?r1 = (Inr (), snd ?r1)" by (simp add: prod_eq_iff)
  from two have s2: "?r2 = (Inr (), snd ?r2)" by (simp add: prod_eq_iff)
  from three have s3: "?r3 = ([Inr ()], snd ?r3)" by (simp add: prod_eq_iff)
  show ?thesis
    unfolding createSandbox_def Let_def
    by (subst s1, simp only: prod.case sum.case, subst s2, simp only: prod.case sum.case, subst s3)
      simp
qed

lemma createSandbox_returns_info:
  assumes "p \<in> set (fst (createSandbox toK8s isNF project ns domain n envVars c))" and "p = Inr info"
  shows "info = sandboxInfo_of n (getServiceName n) domain envVars"
  using assms
  by (auto simp add: createSandbox_def Let_def split: prod.splits sum.splits)

lemma base64_user_abc: "base64 (utf8 ''user:abc'') = ''dXNlcjphYmM=''"
  by code_simp

text \<open>
  C8, as amended. Whenever \<open>createSandbox\<close> returns, the returned object has the
  StatefulSet name equal to the sandbox name, the service name \<open><name>-service\<close>, the
  public URL \<open>https://<name>-app.<domain>\<close>, the file browser URL
  \<open>https://<name>-filebrowser.<domain>\<close>, and the terminal URL
  \<open>https://<name>-ttyd.<domain>\<close>, followed by \<open>?authorization=\<close> and the base64 of
  \<open>user:<token>\<close> exactly when \<open>envVars\<close> has the key \<open>TTYD_ACCESS_TOKEN\<close> with a
  non-empty value. It does return on a cluster that refuses no request and whose
  not-found answers \<open>isK8sNotFound\<close> accepts.
\<close>

theorem createSandbox_info:
  "(\<forall>p \<in> set (fst (createSandbox toK8sProjectName isK8sNotFound projectName namespace
                        ingressDomain sandboxName envVars c)).
      \<forall>info. p = Inr info \<longrightarrow>
        statefulSetName info = sandboxName \<and>
        serviceName info = sandboxName @ ''-service'' \<and>
        publicUrl info = ''https://'' @ sandboxName @ ''-app.'' @ ingressDomain \<and>
        fileBrowserUrl info = ''https://'' @ sandboxName @ ''-filebrowser.'' @ ingressDomain \<and>
        ttydUrl info =
          ''https://'' @ sandboxName @ ''-ttyd.'' @ ingressDomain @
          (case Record_get envVars ''TTYD_ACCESS_TOKEN'' of
             None \<Rightarrow> []
           | Some token \<Rightarrow>
               if token \<noteq> [] then ''?authorization='' @ base64 (utf8 (''user:'' @ token)) else [])) \<and>
   ((\<forall>call. faults c call = None) \<and> isK8sNotFound (http_error 404) \<longrightarrow>
      (\<exists>info. fst (createSandbox toK8sProjectName isK8sNotFound projectName namespace
                      ingressDomain sandboxName envVars c) = [Inr info]))"
proof (intro conjI ballI allI impI)
  fix p info
  assume "p \<in> set (fst (createSandbox toK8sProjectName isK8sNotFound projectName namespace
      ingressDomain sandboxName envVars c))" and "p = Inr info"
  then have info: "info = sandboxInfo_of sandboxName (getServiceName sandboxName) ingressDomain envVars"
    by (rule createSandbox_returns_info)
  show "statefulSetName info = sandboxName"
    and "serviceName info = sandboxName @ ''-service''"
    and "publicUrl info = ''https://'' @ sandboxName @ ''-app.'' @ ingressDomain"
    and "fileBrowserUrl info = ''https://'' @ sandboxName @ ''-filebrowser.'' @ ingressDomain"
    and "ttydUrl info =
          ''https://'' @ sandboxName @ ''-ttyd.'' @ ingressDomain @
          (case Record_get envVars ''TTYD_ACCESS_TOKEN'' of
             None \<Rightarrow> []
           | Some token \<Rightarrow>
               if token \<noteq> [] then ''?authorization='' @ base64 (utf8 (''user:'' @ token)) else [])"
    by (simp_all add: info sandboxInfo_of_def getServiceName_def Let_def split: option.split)
next
  assume "(\<forall>call. faults c call = None) \<and> isK8sNotFound (http_error 404)"
  then have "fst (createSandbox toK8sProjectName isK8sNotFound projectName namespace
      ingressDomain sandboxName envVars c) =
      [Inr (sandboxInfo_of sandboxName (getServiceName sandboxName) ingressDomain envVars)]"
    by (intro createSandbox_no_faults) simp_all
  then show "\<exists>info. fst (createSandbox toK8sProjectName isK8sNotFound projectName namespace
      ingressDomain sandboxName envVars c) = [Inr info]"
    by blast
qed

theorem createSandbox_info_witness:
  "fst (createSandbox (\<lambda>p. p) is404 ''demo'' ''ns1'' ''usw.example.io'' ''acme-x1''
          [(''TTYD_ACCESS_TOKEN'', ''abc'')] empty_cluster) =
     [Inr \<lparr>statefulSetName = ''acme-x1'', serviceName = ''acme-x1-service'',
           publicUrl = ''https://acme-x1-app.usw.example.io'',
           ttydUrl = ''https://acme-x1-ttyd.usw.example.io?authorization=dXNlcjphYmM='',
           fileBrowserUrl = ''https://acme-x1-filebrowser.usw.example.io''\<rparr>]"
proof -
  let ?run = "fst (createSandbox (\<lambda>p. p) is404 ''demo'' ''ns1'' ''usw.example.io'' ''acme-x1''
      [(''TTYD_ACCESS_TOKEN'', ''abc'')] empty_cluster)"
  note claim = createSandbox_info [of "\<lambda>p. p" is404 "''demo''" "''ns1''" "''usw.example.io''"
      "''acme-x1''" "[(''TTYD_ACCESS_TOKEN'', ''abc'')]" empty_cluster]
  have quiet: "(\<forall>call. faults empty_cluster call = None) \<and> is404 (http_error 404)"
    by (simp add: empty_cluster_def is404_def http_error_def)
  with claim obtain info where run: "?run = [Inr info]" by blast
  with claim have
    "statefulSetName info = ''acme-x1''"
    "serviceName info = ''acme-x1'' @ ''-service''"
    "publicUrl info = ''https://'' @ ''acme-x1'' @ ''-app.'' @ ''usw.example.io''"
    "fileBrowserUrl info = ''https://'' @ ''acme-x1'' @ ''-filebrowser.'' @ ''usw.example.io''"
    "ttydUrl info = ''https://'' @ ''acme-x1'' @ ''-ttyd.'' @ ''usw.example.io'' @
       (case Record_get [(''TTYD_ACCESS_TOKEN'', ''abc'')] ''TTYD_ACCESS_TOKEN'' of
          None \<Rightarrow> []
        | Some token \<Rightarrow>
            if token \<noteq> [] then ''?authorization='' @ base64 (utf8 (''user:'' @ token)) else [])"
    by simp_all
  then have "info = \<lparr>statefulSetName = ''acme-x1'', serviceName = ''acme-x1-service'',
           publicUrl = ''https://acme-x1-app.usw.example.io'',
           ttydUrl = ''https://acme-x1-ttyd.usw.example.io?authorization=dXNlcjphYmM='',
           fileBrowserUrl = ''https://acme-x1-filebrowser.usw.example.io''\<rparr>"
    using base64_user_abc by (cases info) (simp add: Record_get_def)
  with run show ?thesis by simp
qed

text \<open>
  C8 as stated fails: with the key \<open>TTYD_ACCESS_TOKEN\<close> present and its value empty, the
  terminal URL carries no \<open>authorization\<close> parameter.
\<close>

theorem createSandbox_empty_token_counterexample:
  "Record_get [(''TTYD_ACCESS_TOKEN'', [])] ''TTYD_ACCESS_TOKEN'' = Some [] \<and>
   fst (createSandbox (\<lambda>p. p) is404 ''demo'' ''ns1'' ''usw.example.io'' ''acme-x1''
          [(''TTYD_ACCESS_TOKEN'', [])] empty_cluster) =
     [Inr \<lparr>statefulSetName = ''acme-x1'', serviceName = ''acme-x1-service'',
           publicUrl = ''https://acme-x1-app.usw.example.io'',
           ttydUrl = ''https://acme-x1-ttyd.usw.example.io'',
           fileBrowserUrl = ''https://acme-x1-filebrowser.usw.example.io''\<rparr>]"
proof -
  have quiet: "\<forall>call. faults empty_cluster call = None" and gone: "is404 (http_error 404)"
    by (simp_all add: empty_cluster_def is404_def http_error_def)
  show ?thesis
    by (simp add: createSandbox_no_faults [where isNF = is404, OF quiet gone] sandboxInfo_of_def
        getServiceName_def Record_get_def)
qed

text \<open>
  C4, evaluated. The existence check finds nothing (404) and the create request is then
  answered with a conflict (409), as when another caller created the resource in
  between. \<open>createStatefulSet\<close> returns; \<open>createService\<close> and
  \<open>createIngressIfNotExists\<close> throw the conflict.
\<close>

theorem create_conflict_only_tolerated_for_statefulSet:
  "fst (createStatefulSet is404 ''acme-x1'' ''demo'' ''ns1'' []
          (empty_cluster\<lparr>faults := (\<lambda>call.
             if call = CreateNamespacedStatefulSet ''ns1'' (statefulSet_manifest ''acme-x1'' ''demo'' ''ns1'' [])
             then Some (http_error 409) else None)\<rparr>)) = Inr () \<and>
   fst (createService ''acme-x1'' ''demo'' ''ns1''
          (empty_cluster\<lparr>faults := (\<lambda>call.
             if call = CreateNamespacedService ''ns1'' (service_manifest ''acme-x1'' ''demo'' ''ns1'')
             then Some (http_error 409) else None)\<rparr>)) = Inl (http_error 409) \<and>
   fst (createIngressIfNotExists is404 ''acme-x1-app-ingress'' ''ns1''
          (createAppIngress ''acme-x1'' ''demo'' ''ns1'' ''acme-x1-service'' ''usw.example.io'')
          (empty_cluster\<lparr>faults := (\<lambda>call.
             if call = CreateNamespacedIngress ''ns1''
                  (createAppIngress ''acme-x1'' ''demo'' ''ns1'' ''acme-x1-service'' ''usw.example.io'')
             then Some (http_error 409) else None)\<rparr>)) = Inl (http_error 409)"
proof -
  have gone: "is404 (http_error 404)"
    by (simp add: is404_def http_error_def)
  have conflict: "response_statusCode_is (http_error 409) 409 = Inr True"
    by simp
  have missing: "response_statusCode_isnt (http_error 404) 404 = Inr False"
    by simp
  have sts: "fst (createStatefulSet is404 ''acme-x1'' ''demo'' ''ns1'' []
          (empty_cluster\<lparr>faults := (\<lambda>call.
             if call = CreateNamespacedStatefulSet ''ns1'' (statefulSet_manifest ''acme-x1'' ''demo'' ''ns1'' [])
             then Some (http_error 409) else None)\<rparr>)) = Inr ()"
    by (simp add: createStatefulSet_def getStatefulSet_unfold createNamespacedStatefulSet_def
        empty_cluster_def gone conflict Let_def)
  have svc: "fst (createService ''acme-x1'' ''demo'' ''ns1''
          (empty_cluster\<lparr>faults := (\<lambda>call.
             if call = CreateNamespacedService ''ns1'' (service_manifest ''acme-x1'' ''demo'' ''ns1'')
             then Some (http_error 409) else None)\<rparr>)) = Inl (http_error 409)"
    by (simp add: createService_def readNamespacedService_def createNamespacedService_def
        empty_cluster_def getServiceName_def missing Let_def)
  have ing: "fst (createIngressIfNotExists is404 ''acme-x1-app-ingress'' ''ns1''
          (createAppIngress ''acme-x1'' ''demo'' ''ns1'' ''acme-x1-service'' ''usw.example.io'')
          (empty_cluster\<lparr>faults := (\<lambda>call.
             if call = CreateNamespacedIngress ''ns1''
                  (createAppIngress ''acme-x1'' ''demo'' ''ns1'' ''acme-x1-service'' ''usw.example.io'')
             then Some (http_error 409) else None)\<rparr>)) = Inl (http_error 409)"
    by (simp add: createIngressIfNotExists_def readNamespacedIngress_def createNamespacedIngress_def
        empty_cluster_def gone Let_def)
  from sts svc ing show ?thesis by blast
qed


section \<open>Remote exec: theorems\<close>

lemma parseInt10_None_iff: "parseInt10 s = None \<longleftrightarrow> \<not> numeric s"
proof -
  define S where "S = dropWhile isWhiteSpace s"
  have "(let negative = (S \<noteq> [] \<and> hd S = CHR ''-'');
             S' = (if S \<noteq> [] \<and> (hd S = CHR ''+'' \<or> hd S = CHR ''-'') then tl S else S);
             Z = takeWhile isDigit S'
         in if Z = [] then None
            else if digits_value Z \<le> 9007199254740992
            then Some (Integer ((if negative then - 1 else 1) * digits_value Z))
            else Some (Rounded negative Z)) = None \<longleftrightarrow>
        \<not> (case S of
             [] \<Rightarrow> False
           | ch # rest \<Rightarrow>
               if ch = CHR ''-'' \<or> ch = CHR ''+'' then (case rest of [] \<Rightarrow> False | d # _ \<Rightarrow> isDigit d)
               else isDigit ch)"
  proof (cases S)
    case Nil
    then show ?thesis by simp
  next
    case (Cons ch rest)
    then show ?thesis
      by (cases rest) (auto simp add: Let_def)
  qed
  then show ?thesis
    unfolding parseInt10_def numeric_def Let_def S_def .
qed

lemma execCommandInBackground_unfold:
  "execCommandInBackground exec timestamp namespace sandboxName command workdir =
     (case exec_promise (background_run exec timestamp namespace sandboxName command workdir) of
        None \<Rightarrow> None
      | Some (Inr _) \<Rightarrow>
          (case parseInt10 (trim (concat (stdout_chunks
                  (background_run exec timestamp namespace sandboxName command workdir)))) of
             None \<Rightarrow>
               Some (Inr \<lparr>success = False, pid = None,
                          error = Some (''Failed to parse PID from output: '' @
                            concat (stdout_chunks
                              (background_run exec timestamp namespace sandboxName command workdir)))\<rparr>)
           | Some n \<Rightarrow> Some (Inr \<lparr>success = True, pid = Some n, error = None\<rparr>))
      | Some (Inl e) \<Rightarrow> Some (Inr \<lparr>success = False, pid = None, error = Some (message e)\<rparr>))"
  unfolding execCommandInBackground_def background_run_def Let_def ..

text \<open>
  The results of \<open>execCommandInBackground\<close> when the run ends for the manager. It does
  not throw. When the run reports the status Success and the trimmed output is not
  numeric, the result is a failure whose message is \<open>Failed to parse PID from output: \<close>
  followed by the output; when it is numeric, the result is a success with the parsed
  number as the PID. When the run reports any other status, or throws, the result is a
  failure with the message of the caught value.
\<close>

lemma execCommandInBackground_results:
  "(\<forall>e. execCommandInBackground exec timestamp namespace sandboxName command workdir \<noteq> Some (Inl e)) \<and>
   (\<forall>st. exec_end (background_run exec timestamp namespace sandboxName command workdir) = StatusCallback st \<and>
         status_status st = Some ''Success'' \<longrightarrow>
      (\<not> numeric (trim (concat (stdout_chunks
            (background_run exec timestamp namespace sandboxName command workdir)))) \<longrightarrow>
         execCommandInBackground exec timestamp namespace sandboxName command workdir =
           Some (Inr \<lparr>success = False, pid = None,
                      error = Some (''Failed to parse PID from output: '' @
                        concat (stdout_chunks
                          (background_run exec timestamp namespace sandboxName command workdir)))\<rparr>)) \<and>
      (numeric (trim (concat (stdout_chunks
            (background_run exec timestamp namespace sandboxName command workdir)))) \<longrightarrow>
         (\<exists>n. parseInt10 (trim (concat (stdout_chunks
                  (background_run exec timestamp namespace sandboxName command workdir)))) = Some n \<and>
              execCommandInBackground exec timestamp namespace sandboxName command workdir =
                Some (Inr \<lparr>success = True, pid = Some n, error = None\<rparr>)))) \<and>
   (\<forall>st. exec_end (background_run exec timestamp namespace sandboxName command workdir) = StatusCallback st \<and>
         status_status st \<noteq> Some ''Success'' \<longrightarrow>
      execCommandInBackground exec timestamp namespace sandboxName command workdir =
        Some (Inr \<lparr>success = False, pid = None,
                   error = Some (''Command failed: '' @
                     or_else (status_message st)
                       (concat (stderr_chunks
                          (background_run exec timestamp namespace sandboxName command workdir))))\<rparr>)) \<and>
   (\<forall>e. exec_end (background_run exec timestamp namespace sandboxName command workdir) = ExecThrows e \<longrightarrow>
      execCommandInBackground exec timestamp namespace sandboxName command workdir =
        Some (Inr \<lparr>success = False, pid = None, error = Some (message e)\<rparr>))"
proof -
  let ?run = "background_run exec timestamp namespace sandboxName command workdir"
  let ?out = "concat (stdout_chunks ?run)"
  have no_throw: "\<forall>e. execCommandInBackground exec timestamp namespace sandboxName command workdir \<noteq> Some (Inl e)"
    by (simp add: execCommandInBackground_unfold split: option.split sum.split)
  have ok: "\<forall>st. exec_end ?run = StatusCallback st \<and> status_status st = Some ''Success'' \<longrightarrow>
      exec_promise ?run = Some (Inr ())"
    by (simp add: exec_promise_def)
  have failed: "\<forall>st. exec_end ?run = StatusCallback st \<and> status_status st \<noteq> Some ''Success'' \<longrightarrow>
      exec_promise ?run =
        Some (Inl (new_Error (''Command failed: '' @ or_else (status_message st) (concat (stderr_chunks ?run)))))"
    by (simp add: exec_promise_def)
  have thrown: "\<forall>e. exec_end ?run = ExecThrows e \<longrightarrow> exec_promise ?run = Some (Inl e)"
    by (simp add: exec_promise_def)
  have parse: "\<not> numeric (trim ?out) \<longleftrightarrow> parseInt10 (trim ?out) = None"
    by (simp add: parseInt10_None_iff)
  show ?thesis
  proof (intro conjI allI impI)
    fix e show "execCommandInBackground exec timestamp namespace sandboxName command workdir \<noteq> Some (Inl e)"
      using no_throw by blast
  next
    fix st
    assume "exec_end ?run = StatusCallback st \<and> status_status st = Some ''Success''"
      and "\<not> numeric (trim ?out)"
    with ok parse show "execCommandInBackground exec timestamp namespace sandboxName command workdir =
        Some (Inr \<lparr>success = False, pid = None,
                   error = Some (''Failed to parse PID from output: '' @ ?out)\<rparr>)"
      by (simp add: execCommandInBackground_unfold)
  next
    fix st
    assume "exec_end ?run = StatusCallback st \<and> status_status st = Some ''Success''"
      and "numeric (trim ?out)"
    with ok parse obtain n where "exec_promise ?run = Some (Inr ())" "parseInt10 (trim ?out) = Some n"
      by (cases "parseInt10 (trim ?out)") auto
    then show "\<exists>n. parseInt10 (trim ?out) = Some n \<and>
        execCommandInBackground exec timestamp namespace sandboxName command workdir =
          Some (Inr \<lparr>success = True, pid = Some n, error = None\<rparr>)"
      by (simp add: execCommandInBackground_unfold)
  next
    fix st
    assume "exec_end ?run = StatusCallback st \<and> status_status st \<noteq> Some ''Success''"
    with failed show "execCommandInBackground exec timestamp namespace sandboxName command workdir =
        Some (Inr \<lparr>success = False, pid = None,
                   error = Some (''Command failed: '' @
                     or_else (status_message st) (concat (stderr_chunks ?run)))\<rparr>)"
      by (simp add: execCommandInBackground_unfold new_Error_def)
  next
    fix e
    assume "exec_end ?run = ExecThrows e"
    with thrown show "execCommandInBackground exec timestamp namespace sandboxName command workdir =
        Some (Inr \<lparr>success = False, pid = None, error = Some (message e)\<rparr>)"
      by (simp add: execCommandInBackground_unfold)
  qed
qed

lemma parseInt10_example: "parseInt10 (trim (concat [''12345'', [CHR 0x0A]])) = Some (Integer 12345)"
  by code_simp

lemma numeric_examples:
  "numeric (trim (concat [''12345'', [CHR 0x0A]]))"
  "\<not> numeric (trim (concat [''started'', [CHR 0x0A]]))"
  by code_simp+

lemma execCommandInBackground_examples:
  "execCommandInBackground
     (constant_exec [''12345'', [CHR 0x0A]] []
        (StatusCallback \<lparr>status_status = Some ''Success'', status_message = None\<rparr>))
     1700000000000 ''ns1'' ''acme-x1'' ''pnpm dev'' None =
     Some (Inr \<lparr>success = True, pid = Some (Integer 12345), error = None\<rparr>) \<and>
   execCommandInBackground
     (constant_exec [''started'', [CHR 0x0A]] []
        (StatusCallback \<lparr>status_status = Some ''Success'', status_message = None\<rparr>))
     1700000000000 ''ns1'' ''acme-x1'' ''echo started'' None =
     Some (Inr \<lparr>success = False, pid = None,
                error = Some (''Failed to parse PID from output: started'' @ [CHR 0x0A])\<rparr>) \<and>
   execCommandInBackground
     (constant_exec [] [''no such directory'']
        (StatusCallback \<lparr>status_status = Some ''Failure'', status_message = None\<rparr>))
     1700000000000 ''ns1'' ''acme-x1'' ''pnpm dev'' (Some ''/nowhere'') =
     Some (Inr \<lparr>success = False, pid = None,
                error = Some ''Command failed: no such directory''\<rparr>) \<and>
   execCommandInBackground
     (constant_exec [] [] (ExecThrows (new_Error ''connection refused'')))
     1700000000000 ''ns1'' ''acme-x1'' ''pnpm dev'' None =
     Some (Inr \<lparr>success = False, pid = None, error = Some ''connection refused''\<rparr>)"
proof -
  let ?ok = "\<lparr>status_status = Some ''Success'', status_message = None\<rparr>"
  let ?bad = "\<lparr>status_status = Some ''Failure'', status_message = None\<rparr>"
  let ?e1 = "constant_exec [''12345'', [CHR 0x0A]] [] (StatusCallback ?ok)"
  let ?e2 = "constant_exec [''started'', [CHR 0x0A]] [] (StatusCallback ?ok)"
  let ?e3 = "constant_exec [] [''no such directory''] (StatusCallback ?bad)"
  let ?e4 = "constant_exec [] [] (ExecThrows (new_Error ''connection refused''))"
  have runs:
    "exec_end (background_run ?e1 1700000000000 ''ns1'' ''acme-x1'' ''pnpm dev'' None) = StatusCallback ?ok"
    "stdout_chunks (background_run ?e1 1700000000000 ''ns1'' ''acme-x1'' ''pnpm dev'' None) = [''12345'', [CHR 0x0A]]"
    "exec_end (background_run ?e2 1700000000000 ''ns1'' ''acme-x1'' ''echo started'' None) = StatusCallback ?ok"
    "stdout_chunks (background_run ?e2 1700000000000 ''ns1'' ''acme-x1'' ''echo started'' None) = [''started'', [CHR 0x0A]]"
    "exec_end (background_run ?e3 1700000000000 ''ns1'' ''acme-x1'' ''pnpm dev'' (Some ''/nowhere'')) = StatusCallback ?bad"
    "stderr_chunks (background_run ?e3 1700000000000 ''ns1'' ''acme-x1'' ''pnpm dev'' (Some ''/nowhere'')) = [''no such directory'']"
    "exec_end (background_run ?e4 1700000000000 ''ns1'' ''acme-x1'' ''pnpm dev'' None) =
       ExecThrows (new_Error ''connection refused'')"
    by (simp_all add: background_run_def constant_exec_def)
  have states: "status_status ?ok = Some ''Success''" "status_status ?bad \<noteq> Some ''Success''"
    "or_else (status_message ?bad) (concat [''no such directory'']) = ''no such directory''"
    "message (new_Error ''connection refused'') = ''connection refused''"
    by (simp_all add: or_else_def new_Error_def)
  note c1 = execCommandInBackground_results [of ?e1 1700000000000 "''ns1''" "''acme-x1''" "''pnpm dev''" None]
  note c2 = execCommandInBackground_results [of ?e2 1700000000000 "''ns1''" "''acme-x1''" "''echo started''" None]
  note c3 = execCommandInBackground_results [of ?e3 1700000000000 "''ns1''" "''acme-x1''" "''pnpm dev''" "Some ''/nowhere''"]
  note c4 = execCommandInBackground_results [of ?e4 1700000000000 "''ns1''" "''acme-x1''" "''pnpm dev''" None]
  have r1: "execCommandInBackground ?e1 1700000000000 ''ns1'' ''acme-x1'' ''pnpm dev'' None =
      Some (Inr \<lparr>success = True, pid = Some (Integer 12345), error = None\<rparr>)"
    using c1 runs(1,2) states(1) numeric_examples(1) parseInt10_example by auto
  have r2: "execCommandInBackground ?e2 1700000000000 ''ns1'' ''acme-x1'' ''echo started'' None =
      Some (Inr \<lparr>success = False, pid = None,
                 error = Some (''Failed to parse PID from output: started'' @ [CHR 0x0A])\<rparr>)"
    using c2 runs(3,4) states(1) numeric_examples(2) by auto
  have r3: "execCommandInBackground ?e3 1700000000000 ''ns1'' ''acme-x1'' ''pnpm dev'' (Some ''/nowhere'') =
      Some (Inr \<lparr>success = False, pid = None, error = Some ''Command failed: no such directory''\<rparr>)"
    using c3 runs(5,6) states(2,3) by auto
  have r4: "execCommandInBackground ?e4 1700000000000 ''ns1'' ''acme-x1'' ''pnpm dev'' None =
      Some (Inr \<lparr>success = False, pid = None, error = Some ''connection refused''\<rparr>)"
    using c4 runs(7) states(4) by auto
  from r1 r2 r3 r4 show ?thesis by blast
qed

text \<open>
  C9, evaluated. The connection to the pod is refused: the promise \<open>exec.exec\<close> returns
  rejects and the status callback is never called. Nothing awaits or catches that
  promise, so the manager's own promise is never settled and the call does not return:
  the failure is not returned as a result.
\<close>

theorem execCommandInBackground_pending_when_exec_rejects:
  "execCommandInBackground
     (constant_exec [] [] (ExecRejects (new_Error ''connect ECONNREFUSED'')))
     1700000000000 ''ns1'' ''acme-x1'' ''pnpm dev'' None = None"
  by (simp add: execCommandInBackground_unfold background_run_def constant_exec_def exec_promise_def)

text \<open>A digit run beyond \<open>2^53\<close> is a PID the model does not name as an integer.\<close>

lemma parseInt10_rounded: "parseInt10 ''9007199254740993'' = Some (Rounded False ''9007199254740993'')"
  by code_simp


end
